theory Spec2Isabelle
  imports Main
begin

section \<open>ExternalMediaPlayer: data model\<close>

text \<open>
  A shallow embedding of \<^verbatim>\<open>CapabilityAgents/ExternalMediaPlayer/src/ExternalMediaPlayer.cpp\<close>.
  Member variables of the class are the fields of the record \<open>ExternalMediaPlayer\<close>; every
  member function takes the object and returns the updated object together with the list
  of effects it had on its collaborators, in program order. Calls into adapters, adapter
  handlers, the focus manager, the directive result sink and the logger (levels ERROR and
  WARN; DEBUG lines are left out) are such effects: they are recorded, not interpreted.
  Shared pointers are identities (natural numbers); a pointer that may be null is an
  \<open>option\<close>. Code under \<^verbatim>\<open>#ifdef EXTERNALMEDIAPLAYER_1_1\<close> inside a function that both
  builds have is guarded by the field \<open>EXTERNALMEDIAPLAYER_1_1\<close> of the environment.
\<close>

datatype FocusState = FOREGROUND | BACKGROUND | Focus_NONE

datatype PlayerActivity = IDLE | PLAYING | STOPPED | PAUSED | BUFFER_UNDERRUN | FINISHED

datatype HaltInitiator = Halt_NONE | EXTERNAL_PAUSE | FOCUS_CHANGE_PAUSE | FOCUS_CHANGE_STOP

datatype RequestType =
    Request_NONE | LOGIN | LOGOUT | PLAY | PAUSE | STOP | RESUME | NEXT | PREVIOUS
  | START_OVER | FAST_FORWARD | REWIND | ENABLE_REPEAT_ONE | ENABLE_REPEAT | DISABLE_REPEAT
  | ENABLE_SHUFFLE | DISABLE_SHUFFLE | FAVORITE | UNFAVORITE | SEEK | ADJUST_SEEK
  | PAUSE_RESUME_TOGGLE | DESELECT_FAVORITE | DESELECT_UNFAVORITE

datatype ExceptionErrorType = UNEXPECTED_INFORMATION_RECEIVED

record AVSDirective =
  getNamespace :: string
  getName :: string
  getPayload :: string
  getMessageId :: string
  getUnparsedDirective :: string

text \<open>
  \<open>DirectiveInfo\<close>: the directive and whether a result sink is attached
  (\<^verbatim>\<open>info->result\<close> is null for \<^verbatim>\<open>handleDirectiveImmediately\<close>). The directive pointer
  itself is dereferenced unchecked by \<^verbatim>\<open>handleDirective\<close>, so it is not optional here.
\<close>

record DirectiveInfo =
  directive :: AVSDirective
  result :: bool

datatype adapter_call =
    Adapter_handleLogin string string bool int
  | Adapter_handleLogout
  | Adapter_handlePlay string int int "(string \<times> string \<times> string \<times> bool) option"
  | Adapter_handlePlayControl RequestType
  | Adapter_handleSeek int
  | Adapter_handleAdjustSeek int

datatype handler_call =
    Handler_authorizeDiscoveredPlayers string
  | Handler_login string
  | Handler_logout string
  | Handler_play string
  | Handler_playControl string RequestType
  | Handler_seek string
  | Handler_adjustSeek string
  | Handler_playControlForPlayer string RequestType

text \<open>
  The adapter state structures, with the fields this file reads. A serialized snapshot is
  kept as a term: a per-player block is the builder call that made it
  (\<^verbatim>\<open>buildSessionState\<close>, \<^verbatim>\<open>buildPlaybackState\<close>, whose bodies are in AdapterUtils), the
  session document holds the player in focus, whether the SPI version and agent members
  were added, and the players array; the playback document holds the default player state
  and the players array.
\<close>

record AdapterSessionState =
  session_playerId :: string
  loggedIn :: bool
  userName :: string

record AdapterPlaybackState =
  playback_playerId :: string
  playback_state :: string
  trackName :: string

record AdapterState =
  sessionState :: AdapterSessionState
  playbackState :: AdapterPlaybackState

datatype player_json =
    buildSessionState AdapterSessionState
  | buildPlaybackState AdapterPlaybackState

datatype state_json =
    SessionStateJson string bool "player_json list"
  | PlaybackStateJson "player_json list"

text \<open>
  The effects. \<open>SendExceptionEncountered\<close> carries the unparsed directive, the error type
  (\<open>None\<close> where the call leaves it to the default argument of the declaration) and the
  message; \<open>SetFailed\<close>, \<open>SetCompleted\<close> and \<open>RemoveDirective\<close> carry the message id.
\<close>

datatype event =
    ACSDK_ERROR string string
  | ACSDK_WARN string string
  | SendExceptionEncountered string "ExceptionErrorType option" string
  | SetFailed string string
  | SetCompleted string
  | RemoveDirective string
  | AdapterCall nat adapter_call
  | HandlerCall nat handler_call
  | AcquireChannel
  | ReleaseChannel
  | SetHandler
  | Notify_all
  | OnLoginStateProvided nat string bool string
  | OnPlaybackStateProvided nat string string string
  | SetState "string \<times> string" "state_json option" "nat option"

datatype task =
    Task_addAdapterHandler nat
  | Task_removeAdapterHandler nat
  | Task_executeOnFocusChanged FocusState
  | Task_authorizeDiscoveredPlayers DirectiveInfo
  | Task_login DirectiveInfo
  | Task_logout DirectiveInfo
  | Task_play DirectiveInfo
  | Task_playControl DirectiveInfo RequestType
  | Task_seek DirectiveInfo
  | Task_adjustSeek DirectiveInfo
  | Task_executeProvideState "string \<times> string" bool nat

text \<open>
  \<open>m_adapters\<close> is the Adapter Registry (player id to adapter, the adapter possibly null),
  \<open>m_adapterHandlers\<close> the set of adapter handlers, kept as a list without duplicates whose
  order stands for the iteration order of the set, \<open>m_executor\<close> the queue of submitted
  tasks that have not run yet. The set of the source promises no iteration order; the
  list keeps the handlers in the order they were added, which is one of the orders the
  set may have, and the properties below speak of membership, of size, and of one call
  per handler.
\<close>

record ExternalMediaPlayer =
  m_adapters :: "(string \<times> nat option) list"
  m_adapterHandlers :: "nat list"
  m_focus :: FocusState
  m_focusAcquireInProgress :: bool
  m_haltInitiator :: HaltInitiator
  m_currentActivity :: PlayerActivity
  m_playerInFocus :: string
  m_observers :: "nat list"
  m_executor :: "task list"

section \<open>Focus arbitration\<close>

definition submit :: "task \<Rightarrow> ExternalMediaPlayer \<Rightarrow> ExternalMediaPlayer" where
  "submit t s = s\<lparr>m_executor := m_executor s @ [t]\<rparr>"

definition setCurrentActivity ::
  "PlayerActivity \<Rightarrow> ExternalMediaPlayer \<Rightarrow> ExternalMediaPlayer \<times> event list" where
  "setCurrentActivity currentActivity s = (s\<lparr>m_currentActivity := currentActivity\<rparr>, [Notify_all])"

text \<open>The loop \<^verbatim>\<open>for (auto adapterHandler : m_adapterHandlers) adapterHandler->f(...)\<close>.\<close>

definition forAdapterHandlers :: "ExternalMediaPlayer \<Rightarrow> handler_call \<Rightarrow> event list" where
  "forAdapterHandlers s c = map (\<lambda>adapterHandler. HandlerCall adapterHandler c) (m_adapterHandlers s)"

definition unexpectedExecuteOnFocusChanged ::
  "ExternalMediaPlayer \<Rightarrow> ExternalMediaPlayer \<times> event list" where
  "unexpectedExecuteOnFocusChanged s = (s, [ACSDK_WARN ''unexpectedExecuteOnFocusChanged'' []])"

text \<open>The shared body of the labels PLAYING, PAUSED and BUFFER_UNDERRUN under focus NONE.\<close>

definition stopExternalMediaPlayer ::
  "ExternalMediaPlayer \<Rightarrow> ExternalMediaPlayer \<times> event list" where
  "stopExternalMediaPlayer s =
    (let (s', es) = setCurrentActivity STOPPED (s\<lparr>m_haltInitiator := FOCUS_CHANGE_STOP\<rparr>) in
     (s', es @ forAdapterHandlers s' (Handler_playControlForPlayer (m_playerInFocus s') STOP)))"

definition executeOnFocusChanged ::
  "FocusState \<Rightarrow> ExternalMediaPlayer \<Rightarrow> ExternalMediaPlayer \<times> event list" where
  "executeOnFocusChanged newFocus s0 =
    (if m_focus s0 = newFocus then (s0\<lparr>m_focusAcquireInProgress := False\<rparr>, [])
     else
       let s = s0\<lparr>m_focus := newFocus, m_focusAcquireInProgress := False\<rparr> in
       if m_playerInFocus s \<noteq> [] \<and> map_of (m_adapters s) (m_playerInFocus s) = None then
         (case newFocus of
            FOREGROUND \<Rightarrow>
              if m_haltInitiator s = EXTERNAL_PAUSE then (s, [])
              else
                (case m_currentActivity s of
                   IDLE \<Rightarrow> (s, [])
                 | STOPPED \<Rightarrow> (s, [])
                 | FINISHED \<Rightarrow> (s, [])
                 | PAUSED \<Rightarrow>
                     let (s', es) = setCurrentActivity PLAYING s in
                     (s', es @ (if m_haltInitiator s' \<noteq> Halt_NONE
                                then forAdapterHandlers s'
                                       (Handler_playControlForPlayer (m_playerInFocus s') RESUME)
                                else []))
                 | PLAYING \<Rightarrow> unexpectedExecuteOnFocusChanged s
                 | BUFFER_UNDERRUN \<Rightarrow> unexpectedExecuteOnFocusChanged s)
          | BACKGROUND \<Rightarrow>
              \<comment> \<open>all six activity labels fall through to the one body\<close>
              let s1 = (if m_haltInitiator s \<noteq> EXTERNAL_PAUSE
                        then s\<lparr>m_haltInitiator := FOCUS_CHANGE_PAUSE\<rparr> else s);
                  (s', es) = setCurrentActivity PAUSED s1 in
              (s', es @ forAdapterHandlers s'
                          (Handler_playControlForPlayer (m_playerInFocus s') PAUSE))
          | Focus_NONE \<Rightarrow>
              (case m_currentActivity s of
                 IDLE \<Rightarrow> (s, [])
               | STOPPED \<Rightarrow> (s, [])
               | FINISHED \<Rightarrow> (s, [])
               | PLAYING \<Rightarrow> stopExternalMediaPlayer s
               | PAUSED \<Rightarrow> stopExternalMediaPlayer s
               | BUFFER_UNDERRUN \<Rightarrow> stopExternalMediaPlayer s))
       else unexpectedExecuteOnFocusChanged s)"

text \<open>
  \<^verbatim>\<open>onFocusChanged\<close> submits the reaction to the executor. The bounded wait on the
  condition variable that follows in the source changes no member and is not part of
  this model.
\<close>

definition onFocusChanged :: "FocusState \<Rightarrow> ExternalMediaPlayer \<Rightarrow> ExternalMediaPlayer" where
  "onFocusChanged newFocus s = submit (Task_executeOnFocusChanged newFocus) s"

definition setPlayerInFocus ::
  "string \<Rightarrow> bool \<Rightarrow> ExternalMediaPlayer \<Rightarrow> ExternalMediaPlayer \<times> event list" where
  "setPlayerInFocus playerInFocus focusAcquire s0 =
    (if focusAcquire then
       let s = s0\<lparr>m_playerInFocus := playerInFocus\<rparr> in
       if m_focus s = Focus_NONE \<and> m_focusAcquireInProgress s \<noteq> True then
         (s\<lparr>m_currentActivity := IDLE, m_haltInitiator := Halt_NONE,
            m_focusAcquireInProgress := True\<rparr>,
          [SetHandler, AcquireChannel])
       else (s, [SetHandler])
     else if playerInFocus = m_playerInFocus s0 \<and> m_focus s0 \<noteq> Focus_NONE then
       (s0, [ReleaseChannel])
     else (s0, []))"

section \<open>Payload extraction\<close>

text \<open>
  Modelled from the spec: the Payload Extractor (\<^verbatim>\<open>jsonUtils::retrieveValue\<close>, declared in
  AVSCommon/Utils/JSON/JSONUtils.h, is not in this source file). It "parses a directive's
  raw payload into typed fields with required/optional semantics": a parsed payload is a
  list of named, typed fields, and retrieving a field of a type succeeds when the field is
  there with a value of that type. An \<^verbatim>\<open>int64_t\<close> field holds a value of that range.
\<close>

datatype json_value = JString string | JInt int | JBool bool | JOther

type_synonym Document = "(string \<times> json_value) list"

definition retrieveValue_string :: "Document \<Rightarrow> string \<Rightarrow> string option" where
  "retrieveValue_string document key =
    (case map_of document key of Some (JString v) \<Rightarrow> Some v | _ \<Rightarrow> None)"

definition retrieveValue_int64 :: "Document \<Rightarrow> string \<Rightarrow> int option" where
  "retrieveValue_int64 document key =
    (case map_of document key of
       Some (JInt v) \<Rightarrow> if - (2 ^ 63) \<le> v \<and> v < 2 ^ 63 then Some v else None
     | _ \<Rightarrow> None)"

definition retrieveValue_bool :: "Document \<Rightarrow> string \<Rightarrow> bool option" where
  "retrieveValue_bool document key =
    (case map_of document key of Some (JBool v) \<Rightarrow> Some v | _ \<Rightarrow> None)"

text \<open>
  Modelled from the spec: the payload keys \<^verbatim>\<open>PLAYER_ID\<close>, \<^verbatim>\<open>USERNAME\<close> and \<^verbatim>\<open>POSITIONINMS\<close>,
  declared in the adapter headers and not in this source file. The spec names the
  required field \<open>playerId\<close>, the error message of \<^verbatim>\<open>handleSeek\<close> names
  \<open>positionMilliseconds\<close>; the user name is an optional field of Login.
\<close>

definition PLAYER_ID :: string where
  "PLAYER_ID = ''playerId''"

definition USERNAME :: string where
  "USERNAME = ''username''"

definition POSITIONINMS :: string where
  "POSITIONINMS = ''positionMilliseconds''"

definition MAX_PAST_OFFSET :: int where
  "MAX_PAST_OFFSET = - 86400000"

definition MAX_FUTURE_OFFSET :: int where
  "MAX_FUTURE_OFFSET = 86400000"

text \<open>
  What this file takes from outside: the build flag, the JSON parser
  (\<^verbatim>\<open>rapidjson::Document::Parse\<close>, \<open>None\<close> for a parse error, and the text of that error,
  which is the logged reason; the offset and the message id of the log line are left out,
  as the further fields of every log line are), the state an adapter or an
  adapter handler reports, and the outcomes of \<^verbatim>\<open>buildDefaultPlayerState\<close>, of the JSON
  writer and of \<^verbatim>\<open>ContextManager::setState\<close>.
\<close>

record environment =
  EXTERNALMEDIAPLAYER_1_1 :: bool
  Parse :: "string \<Rightarrow> Document option"
  GetParseError_En :: "string \<Rightarrow> string"
  getState :: "nat \<Rightarrow> AdapterState"
  getAdapterStates :: "nat \<Rightarrow> AdapterState list"
  buildDefaultPlayerState :: bool
  Accept :: "state_json \<Rightarrow> bool"
  setState_SUCCESS :: bool

section \<open>Directive dispatch\<close>

definition removeDirective :: "DirectiveInfo \<Rightarrow> event list" where
  "removeDirective info =
    (if result info then [RemoveDirective (getMessageId (directive info))] else [])"

definition setHandlingCompleted :: "DirectiveInfo \<Rightarrow> event list" where
  "setHandlingCompleted info =
    (if result info then [SetCompleted (getMessageId (directive info))] else [])
    @ removeDirective info"

definition sendExceptionEncounteredAndReportFailed ::
  "DirectiveInfo \<Rightarrow> string \<Rightarrow> ExceptionErrorType option \<Rightarrow> event list" where
  "sendExceptionEncounteredAndReportFailed info message type =
    [SendExceptionEncountered (getUnparsedDirective (directive info)) type message]
    @ (if result info then [SetFailed (getMessageId (directive info)) message] else [])
    @ removeDirective info"

definition parseDirectivePayload ::
  "environment \<Rightarrow> DirectiveInfo \<Rightarrow> Document option \<times> event list" where
  "parseDirectivePayload env info =
    (case Parse env (getPayload (directive info)) of
       Some document \<Rightarrow> (Some document, [])
     | None \<Rightarrow>
         (None,
          ACSDK_ERROR ''parseDirectivePayloadFailed''
            (GetParseError_En env (getPayload (directive info)))
          # sendExceptionEncounteredAndReportFailed info ''Unable to parse payload''
              (Some UNEXPECTED_INFORMATION_RECEIVED)))"

text \<open>
  \<^verbatim>\<open>preprocessDirective\<close> returns the adapter, or null; the parsed document comes back with
  the adapter, the only case in which a caller reads it.
\<close>

definition preprocessDirective ::
  "environment \<Rightarrow> DirectiveInfo \<Rightarrow> ExternalMediaPlayer \<Rightarrow> (nat \<times> Document) option \<times> event list" where
  "preprocessDirective env info s =
    (case parseDirectivePayload env info of
       (None, es) \<Rightarrow> (None, es)
     | (Some document, es) \<Rightarrow>
         (case retrieveValue_string document PLAYER_ID of
            None \<Rightarrow>
              (None,
               es @ ACSDK_ERROR ''preprocessDirectiveFailed'' ''nullPlayerId''
                    # sendExceptionEncounteredAndReportFailed info ''No PlayerId in directive.'' None)
          | Some playerId \<Rightarrow>
              if EXTERNALMEDIAPLAYER_1_1 env \<and> m_adapters s = [] then (None, es)
              else
                (case map_of (m_adapters s) playerId of
                   None \<Rightarrow>
                     (None,
                      es @ ACSDK_ERROR ''preprocessDirectiveFailed'' ''noAdapterForPlayerId''
                           # sendExceptionEncounteredAndReportFailed info ''Unrecogonized PlayerId.'' None)
                 | Some None \<Rightarrow>
                     (None,
                      es @ ACSDK_ERROR ''preprocessDirectiveFailed'' ''nullAdapter''
                           # sendExceptionEncounteredAndReportFailed info ''nullAdapter.'' None)
                 | Some (Some adapter) \<Rightarrow> (Some (adapter, document), es))))"

definition setHaltInitiatorRequestHelper ::
  "RequestType \<Rightarrow> ExternalMediaPlayer \<Rightarrow> ExternalMediaPlayer" where
  "setHaltInitiatorRequestHelper request s =
    (case request of
       PAUSE \<Rightarrow> s\<lparr>m_haltInitiator := EXTERNAL_PAUSE\<rparr>
     | PAUSE_RESUME_TOGGLE \<Rightarrow>
         if m_currentActivity s = PLAYING
            \<or> (m_currentActivity s = PAUSED \<and> m_haltInitiator s = FOCUS_CHANGE_PAUSE)
         then s\<lparr>m_haltInitiator := EXTERNAL_PAUSE\<rparr> else s
     | PLAY \<Rightarrow> s\<lparr>m_haltInitiator := Halt_NONE\<rparr>
     | RESUME \<Rightarrow> s\<lparr>m_haltInitiator := Halt_NONE\<rparr>
     | _ \<Rightarrow> s)"

text \<open>
  The tail of a handler that gives up on a missing or out-of-range field: the logged
  reason, then the exception with the message.
\<close>

definition handleDirectiveFailed :: "DirectiveInfo \<Rightarrow> string \<Rightarrow> string \<Rightarrow> event list" where
  "handleDirectiveFailed info reason message =
    ACSDK_ERROR ''handleDirectiveFailed'' reason
    # sendExceptionEncounteredAndReportFailed info message None"

text \<open>
  The branch \<^verbatim>\<open>if (!adapter)\<close> of a handler: in the 1.1 build the broadcast to the adapter
  handlers is submitted to the executor, in the other build nothing more is done.
\<close>

definition noAdapter ::
  "environment \<Rightarrow> task \<Rightarrow> ExternalMediaPlayer \<Rightarrow> ExternalMediaPlayer" where
  "noAdapter env t s = (if EXTERNALMEDIAPLAYER_1_1 env then submit t s else s)"

definition handleAuthorizeDiscoveredPlayers ::
  "environment \<Rightarrow> DirectiveInfo \<Rightarrow> RequestType \<Rightarrow> ExternalMediaPlayer
    \<Rightarrow> ExternalMediaPlayer \<times> event list" where
  "handleAuthorizeDiscoveredPlayers env info request s =
    (case parseDirectivePayload env info of
       (None, es) \<Rightarrow> (s, es)
     | (Some payload, es) \<Rightarrow> (submit (Task_authorizeDiscoveredPlayers info) s, es))"

definition handleLogin ::
  "environment \<Rightarrow> DirectiveInfo \<Rightarrow> RequestType \<Rightarrow> ExternalMediaPlayer
    \<Rightarrow> ExternalMediaPlayer \<times> event list" where
  "handleLogin env info request s =
    (case preprocessDirective env info s of
       (None, es) \<Rightarrow> (noAdapter env (Task_login info) s, es)
     | (Some (adapter, payload), es) \<Rightarrow>
         (case retrieveValue_string payload ''accessToken'' of
            None \<Rightarrow>
              (s, es @ handleDirectiveFailed info ''nullAccessToken''
                        ''missing accessToken in Login directive'')
          | Some accessToken \<Rightarrow>
              let userName = (case retrieveValue_string payload USERNAME of
                                None \<Rightarrow> [] | Some u \<Rightarrow> u) in
              (case retrieveValue_int64 payload ''tokenRefreshIntervalInMilliseconds'' of
                 None \<Rightarrow>
                   (s, es @ handleDirectiveFailed info ''nullRefreshInterval''
                             ''missing tokenRefreshIntervalInMilliseconds in Login directive'')
               | Some refreshInterval \<Rightarrow>
                   (case retrieveValue_bool payload ''forceLogin'' of
                      None \<Rightarrow>
                        (s, es @ handleDirectiveFailed info ''nullForceLogin''
                                  ''missing forceLogin in Login directive'')
                    | Some forceLogin \<Rightarrow>
                        (s, es @ setHandlingCompleted info
                               @ [AdapterCall adapter
                                    (Adapter_handleLogin accessToken userName forceLogin
                                       refreshInterval)])))))"

definition handleLogout ::
  "environment \<Rightarrow> DirectiveInfo \<Rightarrow> RequestType \<Rightarrow> ExternalMediaPlayer
    \<Rightarrow> ExternalMediaPlayer \<times> event list" where
  "handleLogout env info request s =
    (case preprocessDirective env info s of
       (None, es) \<Rightarrow> (noAdapter env (Task_logout info) s, es)
     | (Some (adapter, payload), es) \<Rightarrow>
         (s, es @ setHandlingCompleted info @ [AdapterCall adapter Adapter_handleLogout]))"

definition handlePlay ::
  "environment \<Rightarrow> DirectiveInfo \<Rightarrow> RequestType \<Rightarrow> ExternalMediaPlayer
    \<Rightarrow> ExternalMediaPlayer \<times> event list" where
  "handlePlay env info request s =
    (case preprocessDirective env info s of
       (None, es) \<Rightarrow>
         (if EXTERNALMEDIAPLAYER_1_1 env
          then submit (Task_play info) (setHaltInitiatorRequestHelper request s) else s, es)
     | (Some (adapter, payload), es) \<Rightarrow>
         (case retrieveValue_string payload ''playbackContextToken'' of
            None \<Rightarrow>
              (s, es @ handleDirectiveFailed info ''nullPlaybackContextToken''
                        ''missing playbackContextToken in Play directive'')
          | Some playbackContextToken \<Rightarrow>
              let offset = (case retrieveValue_int64 payload ''offsetInMilliseconds'' of
                              None \<Rightarrow> 0 | Some v \<Rightarrow> v);
                  index = (case retrieveValue_int64 payload ''index'' of
                             None \<Rightarrow> 0 | Some v \<Rightarrow> v) in
              if EXTERNALMEDIAPLAYER_1_1 env then
                (case retrieveValue_string payload ''skillToken'' of
                   None \<Rightarrow>
                     (s, es @ handleDirectiveFailed info ''nullSkillToken''
                               ''missing skillToken in Play directive'')
                 | Some skillToken \<Rightarrow>
                (case retrieveValue_string payload ''playbackSessionId'' of
                   None \<Rightarrow>
                     (s, es @ handleDirectiveFailed info ''nullPlaybackSessionId''
                               ''missing playbackSessionId in Play directive'')
                 | Some playbackSessionId \<Rightarrow>
                (case retrieveValue_string payload ''navigation'' of
                   None \<Rightarrow>
                     (s, es @ handleDirectiveFailed info ''nullNavigation''
                               ''missing navigation in Play directive'')
                 | Some navigation \<Rightarrow>
                (case retrieveValue_bool payload ''preload'' of
                   None \<Rightarrow>
                     (s, es @ handleDirectiveFailed info ''nullPreload''
                               ''missing preload in Play directive'')
                 | Some preload \<Rightarrow>
                     (s, es @ setHandlingCompleted info
                            @ [AdapterCall adapter
                                 (Adapter_handlePlay playbackContextToken index offset
                                    (Some (skillToken, playbackSessionId, navigation, preload)))])))))
              else
                (s, es @ setHandlingCompleted info
                       @ [AdapterCall adapter
                            (Adapter_handlePlay playbackContextToken index offset None)])))"

definition handleSeek ::
  "environment \<Rightarrow> DirectiveInfo \<Rightarrow> RequestType \<Rightarrow> ExternalMediaPlayer
    \<Rightarrow> ExternalMediaPlayer \<times> event list" where
  "handleSeek env info request s =
    (case preprocessDirective env info s of
       (None, es) \<Rightarrow> (noAdapter env (Task_seek info) s, es)
     | (Some (adapter, payload), es) \<Rightarrow>
         (case retrieveValue_int64 payload POSITIONINMS of
            None \<Rightarrow>
              (s, es @ handleDirectiveFailed info ''nullPosition''
                        ''missing positionMilliseconds in SetSeekPosition directive'')
          | Some position \<Rightarrow>
              (s, es @ setHandlingCompleted info
                     @ [AdapterCall adapter (Adapter_handleSeek position)])))"

definition handleAdjustSeek ::
  "environment \<Rightarrow> DirectiveInfo \<Rightarrow> RequestType \<Rightarrow> ExternalMediaPlayer
    \<Rightarrow> ExternalMediaPlayer \<times> event list" where
  "handleAdjustSeek env info request s =
    (case preprocessDirective env info s of
       (None, es) \<Rightarrow> (noAdapter env (Task_adjustSeek info) s, es)
     | (Some (adapter, payload), es) \<Rightarrow>
         (case retrieveValue_int64 payload ''deltaPositionMilliseconds'' of
            None \<Rightarrow>
              (s, es @ handleDirectiveFailed info ''nullDeltaPositionMilliseconds''
                        ''missing deltaPositionMilliseconds in AdjustSeekPosition directive'')
          | Some deltaPosition \<Rightarrow>
              if deltaPosition < MAX_PAST_OFFSET \<or> deltaPosition > MAX_FUTURE_OFFSET then
                (s, es @ handleDirectiveFailed info ''deltaPositionMillisecondsOutOfRange.''
                          ''missing deltaPositionMilliseconds in AdjustSeekPosition directive'')
              else
                (s, es @ setHandlingCompleted info
                       @ [AdapterCall adapter (Adapter_handleAdjustSeek deltaPosition)])))"

definition handlePlayControl ::
  "environment \<Rightarrow> DirectiveInfo \<Rightarrow> RequestType \<Rightarrow> ExternalMediaPlayer
    \<Rightarrow> ExternalMediaPlayer \<times> event list" where
  "handlePlayControl env info request s =
    (case preprocessDirective env info s of
       (None, es) \<Rightarrow>
         (if EXTERNALMEDIAPLAYER_1_1 env
          then submit (Task_playControl info request) (setHaltInitiatorRequestHelper request s)
          else s, es)
     | (Some (adapter, payload), es) \<Rightarrow>
         (s, es @ setHandlingCompleted info
                @ [AdapterCall adapter (Adapter_handlePlayControl request)]))"

text \<open>
  The static dispatch table: (namespace, name) to (request kind, handler). The member
  function pointers are the constructors of \<open>DirectiveHandler\<close>, called through
  \<open>invoke\<close>.
\<close>

datatype DirectiveHandler =
    ptr_handleAuthorizeDiscoveredPlayers
  | ptr_handleLogin
  | ptr_handleLogout
  | ptr_handlePlay
  | ptr_handlePlayControl
  | ptr_handleSeek
  | ptr_handleAdjustSeek

definition EXTERNALMEDIAPLAYER_NAMESPACE :: string where
  "EXTERNALMEDIAPLAYER_NAMESPACE = ''ExternalMediaPlayer''"

definition PLAYBACKCONTROLLER_NAMESPACE :: string where
  "PLAYBACKCONTROLLER_NAMESPACE = ''Alexa.PlaybackController''"

definition PLAYLISTCONTROLLER_NAMESPACE :: string where
  "PLAYLISTCONTROLLER_NAMESPACE = ''Alexa.PlaylistController''"

definition SEEKCONTROLLER_NAMESPACE :: string where
  "SEEKCONTROLLER_NAMESPACE = ''Alexa.SeekController''"

definition FAVORITESCONTROLLER_NAMESPACE :: string where
  "FAVORITESCONTROLLER_NAMESPACE = ''Alexa.FavoritesController''"

definition m_directiveToHandlerMap ::
  "environment \<Rightarrow> ((string \<times> string) \<times> (RequestType \<times> DirectiveHandler)) list" where
  "m_directiveToHandlerMap env =
    (if EXTERNALMEDIAPLAYER_1_1 env
     then [((EXTERNALMEDIAPLAYER_NAMESPACE, ''AuthorizeDiscoveredPlayers''),
            (Request_NONE, ptr_handleAuthorizeDiscoveredPlayers))]
     else [])
    @ [((EXTERNALMEDIAPLAYER_NAMESPACE, ''Login''), (LOGIN, ptr_handleLogin)),
       ((EXTERNALMEDIAPLAYER_NAMESPACE, ''Logout''), (LOGOUT, ptr_handleLogout)),
       ((EXTERNALMEDIAPLAYER_NAMESPACE, ''Play''), (PLAY, ptr_handlePlay)),
       ((PLAYBACKCONTROLLER_NAMESPACE, ''Pause''), (PAUSE, ptr_handlePlayControl)),
       ((PLAYBACKCONTROLLER_NAMESPACE, ''Stop''), (STOP, ptr_handlePlayControl)),
       ((PLAYBACKCONTROLLER_NAMESPACE, ''Play''), (RESUME, ptr_handlePlayControl)),
       ((PLAYBACKCONTROLLER_NAMESPACE, ''Next''), (NEXT, ptr_handlePlayControl)),
       ((PLAYBACKCONTROLLER_NAMESPACE, ''Previous''), (PREVIOUS, ptr_handlePlayControl)),
       ((PLAYBACKCONTROLLER_NAMESPACE, ''StartOver''), (START_OVER, ptr_handlePlayControl)),
       ((PLAYBACKCONTROLLER_NAMESPACE, ''FastForward''), (FAST_FORWARD, ptr_handlePlayControl)),
       ((PLAYBACKCONTROLLER_NAMESPACE, ''Rewind''), (REWIND, ptr_handlePlayControl)),
       ((PLAYLISTCONTROLLER_NAMESPACE, ''EnableRepeatOne''), (ENABLE_REPEAT_ONE, ptr_handlePlayControl)),
       ((PLAYLISTCONTROLLER_NAMESPACE, ''EnableRepeat''), (ENABLE_REPEAT, ptr_handlePlayControl)),
       ((PLAYLISTCONTROLLER_NAMESPACE, ''DisableRepeat''), (DISABLE_REPEAT, ptr_handlePlayControl)),
       ((PLAYLISTCONTROLLER_NAMESPACE, ''EnableShuffle''), (ENABLE_SHUFFLE, ptr_handlePlayControl)),
       ((PLAYLISTCONTROLLER_NAMESPACE, ''DisableShuffle''), (DISABLE_SHUFFLE, ptr_handlePlayControl)),
       ((FAVORITESCONTROLLER_NAMESPACE, ''Favorite''), (FAVORITE, ptr_handlePlayControl)),
       ((FAVORITESCONTROLLER_NAMESPACE, ''Unfavorite''), (UNFAVORITE, ptr_handlePlayControl)),
       ((SEEKCONTROLLER_NAMESPACE, ''SetSeekPosition''), (SEEK, ptr_handleSeek)),
       ((SEEKCONTROLLER_NAMESPACE, ''AdjustSeekPosition''), (ADJUST_SEEK, ptr_handleAdjustSeek))]"

definition invoke ::
  "DirectiveHandler \<Rightarrow> environment \<Rightarrow> DirectiveInfo \<Rightarrow> RequestType \<Rightarrow> ExternalMediaPlayer
    \<Rightarrow> ExternalMediaPlayer \<times> event list" where
  "invoke handler =
    (case handler of
       ptr_handleAuthorizeDiscoveredPlayers \<Rightarrow> handleAuthorizeDiscoveredPlayers
     | ptr_handleLogin \<Rightarrow> handleLogin
     | ptr_handleLogout \<Rightarrow> handleLogout
     | ptr_handlePlay \<Rightarrow> handlePlay
     | ptr_handlePlayControl \<Rightarrow> handlePlayControl
     | ptr_handleSeek \<Rightarrow> handleSeek
     | ptr_handleAdjustSeek \<Rightarrow> handleAdjustSeek)"

definition handleDirective ::
  "environment \<Rightarrow> DirectiveInfo option \<Rightarrow> ExternalMediaPlayer
    \<Rightarrow> ExternalMediaPlayer \<times> event list" where
  "handleDirective env info_ptr s =
    (case info_ptr of
       None \<Rightarrow> (s, [ACSDK_ERROR ''handleDirectiveFailed'' ''nullDirectiveInfo''])
     | Some info \<Rightarrow>
         (case map_of (m_directiveToHandlerMap env)
                 (getNamespace (directive info), getName (directive info)) of
            None \<Rightarrow>
              (s, ACSDK_ERROR ''handleDirectivesFailed'' ''noDirectiveHandlerForDirective''
                  # sendExceptionEncounteredAndReportFailed info ''Unhandled directive''
                      (Some UNEXPECTED_INFORMATION_RECEIVED))
          | Some (request, handler) \<Rightarrow> invoke handler env info request s))"

text \<open>
  \<^verbatim>\<open>handleDirectiveImmediately\<close> wraps the directive in a \<open>DirectiveInfo\<close> with no result
  sink.
\<close>

definition handleDirectiveImmediately ::
  "environment \<Rightarrow> AVSDirective \<Rightarrow> ExternalMediaPlayer \<Rightarrow> ExternalMediaPlayer \<times> event list" where
  "handleDirectiveImmediately env d s =
    handleDirective env (Some \<lparr>directive = d, result = False\<rparr>) s"

section \<open>Adapter handlers and observers\<close>

definition addAdapterHandler ::
  "nat option \<Rightarrow> ExternalMediaPlayer \<Rightarrow> ExternalMediaPlayer \<times> event list" where
  "addAdapterHandler adapterHandler s =
    (case adapterHandler of
       None \<Rightarrow> (s, [ACSDK_ERROR ''addAdapterHandler'' ''Adapter handler is null.''])
     | Some h \<Rightarrow> (submit (Task_addAdapterHandler h) s, []))"

definition removeAdapterHandler ::
  "nat option \<Rightarrow> ExternalMediaPlayer \<Rightarrow> ExternalMediaPlayer \<times> event list" where
  "removeAdapterHandler adapterHandler s =
    (case adapterHandler of
       None \<Rightarrow> (s, [ACSDK_ERROR ''removeAdapterHandler'' ''Adapter handler is null.''])
     | Some h \<Rightarrow> (submit (Task_removeAdapterHandler h) s, []))"

text \<open>
  The bodies of the two submitted lambdas. \<^verbatim>\<open>insert(...).second\<close> is false when the
  handler is already a member, \<^verbatim>\<open>erase(...)\<close> is 0 when it is not one.
\<close>

definition addAdapterHandlerInExecutor ::
  "nat \<Rightarrow> ExternalMediaPlayer \<Rightarrow> ExternalMediaPlayer \<times> event list" where
  "addAdapterHandlerInExecutor h s =
    (if h \<in> set (m_adapterHandlers s)
     then (s, [ACSDK_ERROR ''addAdapterHandlerInExecutor'' ''Duplicate adapter handler.''])
     else (s\<lparr>m_adapterHandlers := m_adapterHandlers s @ [h]\<rparr>, []))"

definition removeAdapterHandlerInExecutor ::
  "nat \<Rightarrow> ExternalMediaPlayer \<Rightarrow> ExternalMediaPlayer \<times> event list" where
  "removeAdapterHandlerInExecutor h s =
    (if h \<in> set (m_adapterHandlers s)
     then (s\<lparr>m_adapterHandlers := removeAll h (m_adapterHandlers s)\<rparr>, [])
     else (s, [ACSDK_WARN ''removeAdapterHandlerInExecutor'' ''Nonexistent adapter handler.'']))"

definition addObserver :: "nat option \<Rightarrow> ExternalMediaPlayer \<Rightarrow> ExternalMediaPlayer \<times> event list" where
  "addObserver observer s =
    (case observer of
       None \<Rightarrow> (s, [ACSDK_ERROR ''addObserverFailed'' ''nullObserver''])
     | Some ob \<Rightarrow> (s\<lparr>m_observers := List.insert ob (m_observers s)\<rparr>, []))"

definition removeObserver :: "nat option \<Rightarrow> ExternalMediaPlayer \<Rightarrow> ExternalMediaPlayer \<times> event list" where
  "removeObserver observer s =
    (case observer of
       None \<Rightarrow> (s, [ACSDK_ERROR ''removeObserverFailed'' ''nullObserver''])
     | Some ob \<Rightarrow> (s\<lparr>m_observers := removeAll ob (m_observers s)\<rparr>, []))"

text \<open>
  \<^verbatim>\<open>notifyObservers\<close> with session properties, respectively playback properties, only.
\<close>

definition notifyObservers_session ::
  "ExternalMediaPlayer \<Rightarrow> string \<Rightarrow> bool \<Rightarrow> string \<Rightarrow> event list" where
  "notifyObservers_session s playerId li un =
    (if playerId = [] then [ACSDK_ERROR ''notifyObserversFailed'' ''emptyPlayerId'']
     else map (\<lambda>observer. OnLoginStateProvided observer playerId li un) (m_observers s))"

definition notifyObservers_playback ::
  "ExternalMediaPlayer \<Rightarrow> string \<Rightarrow> string \<Rightarrow> string \<Rightarrow> event list" where
  "notifyObservers_playback s playerId st tn =
    (if playerId = [] then [ACSDK_ERROR ''notifyObserversFailed'' ''emptyPlayerId'']
     else map (\<lambda>observer. OnPlaybackStateProvided observer playerId st tn) (m_observers s))"

section \<open>State aggregation\<close>

text \<open>
  The loop over the Adapter Registry in \<^verbatim>\<open>provideSessionState\<close>: a null adapter is skipped,
  every other adapter contributes a block and a notification of the observers.
\<close>

fun sessionStateOfAdapters ::
  "environment \<Rightarrow> ExternalMediaPlayer \<Rightarrow> (string \<times> nat option) list
    \<Rightarrow> player_json list \<times> event list" where
  "sessionStateOfAdapters env s [] = ([], [])"
| "sessionStateOfAdapters env s ((playerId, None) # rest) = sessionStateOfAdapters env s rest"
| "sessionStateOfAdapters env s ((playerId, Some adapter) # rest) =
    (let state = sessionState (getState env adapter);
         (players, es) = sessionStateOfAdapters env s rest in
     (buildSessionState state # players,
      notifyObservers_session s (session_playerId state) (loggedIn state) (userName state) @ es))"

text \<open>
  The loop over the states the adapter handlers reported, in \<^verbatim>\<open>provideSessionState\<close>: a
  state whose session player id is empty is skipped.
\<close>

fun sessionStateOfHandlers :: "AdapterState list \<Rightarrow> player_json list" where
  "sessionStateOfHandlers [] = []"
| "sessionStateOfHandlers (adapterState # rest) =
    (if session_playerId (sessionState adapterState) = [] then sessionStateOfHandlers rest
     else buildSessionState (sessionState adapterState) # sessionStateOfHandlers rest)"

definition provideSessionState ::
  "environment \<Rightarrow> AdapterState list \<Rightarrow> ExternalMediaPlayer \<Rightarrow> state_json option \<times> event list" where
  "provideSessionState env adapterStates s =
    (let (players, es) = sessionStateOfAdapters env s (m_adapters s);
         players' = (if EXTERNALMEDIAPLAYER_1_1 env
                     then players @ sessionStateOfHandlers adapterStates else players);
         state = SessionStateJson (m_playerInFocus s) (EXTERNALMEDIAPLAYER_1_1 env) players' in
     if \<not> Accept env state
     then (None, es @ [ACSDK_ERROR ''provideSessionStateFailed'' ''writerRefusedJsonObject''])
     else (Some state, es))"

fun playbackStateOfAdapters ::
  "environment \<Rightarrow> ExternalMediaPlayer \<Rightarrow> (string \<times> nat option) list
    \<Rightarrow> player_json list \<times> event list" where
  "playbackStateOfAdapters env s [] = ([], [])"
| "playbackStateOfAdapters env s ((playerId, None) # rest) = playbackStateOfAdapters env s rest"
| "playbackStateOfAdapters env s ((playerId, Some adapter) # rest) =
    (let state = playbackState (getState env adapter);
         (players, es) = playbackStateOfAdapters env s rest in
     (buildPlaybackState state # players,
      notifyObservers_playback s (playback_playerId state) (playback_state state) (trackName state)
      @ es))"

text \<open>
  The loop over the states the adapter handlers reported, in \<^verbatim>\<open>providePlaybackState\<close>:
  every state contributes a block.
\<close>

fun playbackStateOfHandlers :: "AdapterState list \<Rightarrow> player_json list" where
  "playbackStateOfHandlers [] = []"
| "playbackStateOfHandlers (adapterState # rest) =
    buildPlaybackState (playbackState adapterState) # playbackStateOfHandlers rest"

definition providePlaybackState ::
  "environment \<Rightarrow> AdapterState list \<Rightarrow> ExternalMediaPlayer \<Rightarrow> state_json option \<times> event list" where
  "providePlaybackState env adapterStates s =
    (if \<not> buildDefaultPlayerState env then (None, [])
     else
       let (players, es) = playbackStateOfAdapters env s (m_adapters s);
           players' = (if EXTERNALMEDIAPLAYER_1_1 env
                       then players @ playbackStateOfHandlers adapterStates else players);
           state = PlaybackStateJson players' in
       if \<not> Accept env state
       then (None, es @ [ACSDK_ERROR ''providePlaybackState'' ''writerRefusedJsonObject''])
       else (Some state, es))"

definition SESSION_STATE :: "string \<times> string" where
  "SESSION_STATE = (''ExternalMediaPlayer'', ''ExternalMediaPlayerState'')"

definition PLAYBACK_STATE :: "string \<times> string" where
  "PLAYBACK_STATE = (''Alexa.PlaybackStateReporter'', ''playbackState'')"

text \<open>
  The adapter states of the handlers are collected only when the Adapter Registry is
  empty, and only in the 1.1 build.
\<close>

definition handlerAdapterStates :: "environment \<Rightarrow> ExternalMediaPlayer \<Rightarrow> AdapterState list" where
  "handlerAdapterStates env s =
    (if EXTERNALMEDIAPLAYER_1_1 env \<and> m_adapters s = []
     then concat (map (getAdapterStates env) (m_adapterHandlers s)) else [])"

definition executeProvideState ::
  "environment \<Rightarrow> string \<times> string \<Rightarrow> bool \<Rightarrow> nat \<Rightarrow> ExternalMediaPlayer \<Rightarrow> event list" where
  "executeProvideState env stateProviderName sendToken stateRequestToken s =
    (let adapterStates = handlerAdapterStates env s in
     if stateProviderName = SESSION_STATE \<or> stateProviderName = PLAYBACK_STATE then
       let (state, es) = (if stateProviderName = SESSION_STATE
                          then provideSessionState env adapterStates s
                          else providePlaybackState env adapterStates s) in
       es @ [SetState stateProviderName state (if sendToken then Some stateRequestToken else None)]
          @ (if \<not> setState_SUCCESS env
             then [ACSDK_ERROR ''executeProvideState'' ''contextManagerSetStateFailedForEMPState'']
             else [])
     else [ACSDK_ERROR ''executeProvideState'' ''unknownStateProviderName''])"

definition provideState ::
  "string \<times> string \<Rightarrow> nat \<Rightarrow> ExternalMediaPlayer \<Rightarrow> ExternalMediaPlayer" where
  "provideState stateProviderName stateRequestToken s =
    submit (Task_executeProvideState stateProviderName True stateRequestToken) s"

section \<open>The executor\<close>

text \<open>
  A submitted task runs later, on the state of that moment. No task body submits another
  task, so running the queue is a recursion over it.
\<close>

definition broadcast ::
  "ExternalMediaPlayer \<Rightarrow> handler_call \<Rightarrow> DirectiveInfo \<Rightarrow> ExternalMediaPlayer \<times> event list" where
  "broadcast s c info = (s, forAdapterHandlers s c @ setHandlingCompleted info)"

definition executeTask ::
  "environment \<Rightarrow> task \<Rightarrow> ExternalMediaPlayer \<Rightarrow> ExternalMediaPlayer \<times> event list" where
  "executeTask env t s =
    (case t of
       Task_addAdapterHandler h \<Rightarrow> addAdapterHandlerInExecutor h s
     | Task_removeAdapterHandler h \<Rightarrow> removeAdapterHandlerInExecutor h s
     | Task_executeOnFocusChanged newFocus \<Rightarrow> executeOnFocusChanged newFocus s
     | Task_authorizeDiscoveredPlayers info \<Rightarrow>
         broadcast s (Handler_authorizeDiscoveredPlayers (getPayload (directive info))) info
     | Task_login info \<Rightarrow> broadcast s (Handler_login (getPayload (directive info))) info
     | Task_logout info \<Rightarrow> broadcast s (Handler_logout (getPayload (directive info))) info
     | Task_play info \<Rightarrow> broadcast s (Handler_play (getPayload (directive info))) info
     | Task_playControl info request \<Rightarrow>
         broadcast s (Handler_playControl (getPayload (directive info)) request) info
     | Task_seek info \<Rightarrow> broadcast s (Handler_seek (getPayload (directive info))) info
     | Task_adjustSeek info \<Rightarrow> broadcast s (Handler_adjustSeek (getPayload (directive info))) info
     | Task_executeProvideState stateProviderName sendToken stateRequestToken \<Rightarrow>
         (s, executeProvideState env stateProviderName sendToken stateRequestToken s))"

fun runTasks ::
  "environment \<Rightarrow> task list \<Rightarrow> ExternalMediaPlayer \<Rightarrow> ExternalMediaPlayer \<times> event list" where
  "runTasks env [] s = (s, [])"
| "runTasks env (t # ts) s =
    (let (s1, es1) = executeTask env t s;
         (s2, es2) = runTasks env ts s1 in
     (s2, es1 @ es2))"

definition runExecutor ::
  "environment \<Rightarrow> ExternalMediaPlayer \<Rightarrow> ExternalMediaPlayer \<times> event list" where
  "runExecutor env s = runTasks env (m_executor s) (s\<lparr>m_executor := []\<rparr>)"

section \<open>Reading a list of effects\<close>

text \<open>The calls made on registry adapters, and those made on adapter handlers, in order.\<close>

fun adapterCalls :: "event list \<Rightarrow> (nat \<times> adapter_call) list" where
  "adapterCalls [] = []"
| "adapterCalls (AdapterCall a c # es) = (a, c) # adapterCalls es"
| "adapterCalls (e # es) = adapterCalls es"

fun handlerCalls :: "event list \<Rightarrow> (nat \<times> handler_call) list" where
  "handlerCalls [] = []"
| "handlerCalls (HandlerCall h c # es) = (h, c) # handlerCalls es"
| "handlerCalls (e # es) = handlerCalls es"

text \<open>
  The object as the constructor leaves it when \<^verbatim>\<open>createAdapters\<close> adds no adapter: no
  focus, no acquisition in progress, no halt initiator, activity IDLE.
\<close>

definition initial :: ExternalMediaPlayer where
  "initial =
    \<lparr>m_adapters = [], m_adapterHandlers = [], m_focus = Focus_NONE,
     m_focusAcquireInProgress = False, m_haltInitiator = Halt_NONE,
     m_currentActivity = IDLE, m_playerInFocus = [], m_observers = [], m_executor = []\<rparr>"

text \<open>A caller making calls of \<^verbatim>\<open>setPlayerInFocus\<close> in a row, with no focus change between.\<close>

fun setPlayerInFocus_calls ::
  "(string \<times> bool) list \<Rightarrow> ExternalMediaPlayer \<Rightarrow> ExternalMediaPlayer \<times> event list" where
  "setPlayerInFocus_calls [] s = (s, [])"
| "setPlayerInFocus_calls ((playerInFocus, focusAcquire) # calls) s =
    (let (s1, es1) = setPlayerInFocus playerInFocus focusAcquire s;
         (s2, es2) = setPlayerInFocus_calls calls s1 in
     (s2, es1 @ es2))"

section \<open>Concrete inputs\<close>

text \<open>
  An environment for evaluation: the parser is a table from payload text to parsed
  document (a text outside the table does not parse), an adapter handler reports the
  states listed for it, a registry adapter reports \<open>example_state\<close>, and the JSON writer and
  the context manager succeed.
\<close>

definition example_state :: "string \<Rightarrow> AdapterState" where
  "example_state playerId =
    \<lparr>sessionState = \<lparr>session_playerId = playerId, loggedIn = False, userName = []\<rparr>,
     playbackState = \<lparr>playback_playerId = playerId, playback_state = ''IDLE'', trackName = []\<rparr>\<rparr>"

definition example_env ::
  "bool \<Rightarrow> (string \<times> Document) list \<Rightarrow> (nat \<times> AdapterState list) list \<Rightarrow> environment" where
  "example_env v11 parses states =
    \<lparr>EXTERNALMEDIAPLAYER_1_1 = v11,
     Parse = map_of parses,
     GetParseError_En = (\<lambda>payload. ''Invalid value.''),
     getState = (\<lambda>adapter. example_state ''Registry''),
     getAdapterStates = (\<lambda>h. case map_of states h of None \<Rightarrow> [] | Some sts \<Rightarrow> sts),
     buildDefaultPlayerState = True,
     Accept = (\<lambda>state. True),
     setState_SUCCESS = True\<rparr>"

definition example_info :: "string \<Rightarrow> string \<Rightarrow> string \<Rightarrow> DirectiveInfo" where
  "example_info ns name payload =
    \<lparr>directive = \<lparr>getNamespace = ns, getName = name, getPayload = payload,
                  getMessageId = ''msg-1'', getUnparsedDirective = ''unparsed-1''\<rparr>,
     result = True\<rparr>"

text \<open>
  Parsed payloads for evaluation, keyed by a payload text: an empty object, three
  AdjustSeekPosition payloads for the registry player Spotify, a Play payload for
  Spotify without a playback context token, and a payload that names Spotify and
  nothing else.
\<close>

definition seek_payload :: "int \<Rightarrow> Document" where
  "seek_payload delta =
    [(''playerId'', JString ''Spotify''), (''deltaPositionMilliseconds'', JInt delta)]"

definition example_parses :: "(string \<times> Document) list" where
  "example_parses =
    [(''{}'', []),
     (''delta=86400001'', seek_payload 86400001),
     (''delta=86400000'', seek_payload 86400000),
     (''delta=-86400001'', seek_payload (- 86400001)),
     (''play'', [(''playerId'', JString ''Spotify''), (''index'', JInt 0)]),
     (''no delta'', [(''playerId'', JString ''Spotify'')])]"

text \<open>
  An adapter state with nothing in it: empty player ids, not logged in, empty names.
\<close>

definition empty_state :: AdapterState where
  "empty_state =
    \<lparr>sessionState = \<lparr>session_playerId = [], loggedIn = False, userName = []\<rparr>,
     playbackState = \<lparr>playback_playerId = [], playback_state = [], trackName = []\<rparr>\<rparr>"

section \<open>Properties of the focus arbitration\<close>

lemma handlerCalls_append: "handlerCalls (xs @ ys) = handlerCalls xs @ handlerCalls ys"
  by (induction xs rule: handlerCalls.induct) auto

lemma handlerCalls_map: "handlerCalls (map (\<lambda>h. HandlerCall h c) hs) = map (\<lambda>h. (h, c)) hs"
  by (induction hs) auto

lemma adapterCalls_append: "adapterCalls (xs @ ys) = adapterCalls xs @ adapterCalls ys"
  by (induction xs rule: adapterCalls.induct) auto

lemma adapterCalls_map: "adapterCalls (map (\<lambda>h. HandlerCall h c) hs) = []"
  by (induction hs) auto

text \<open>
  C10. A focus change reaches the transition table only when the new focus differs from
  the current one, the player in focus is non-empty, and the player in focus has no entry
  in the Adapter Registry. When the new focus equals the current focus the only effect is
  that the acquire-in-progress flag is cleared. When the focus differs but the player in
  focus is empty or is in the registry, the focus is recorded, the flag is cleared, a
  warning is logged, and neither the activity nor the halt initiator changes and no
  control is issued. Conversely, whenever the activity or the halt initiator changes or a
  control is issued to an adapter handler, all three conditions held.
\<close>

theorem focus_change_guard:
  "(m_focus s = newFocus \<longrightarrow>
      executeOnFocusChanged newFocus s = (s\<lparr>m_focusAcquireInProgress := False\<rparr>, []))
   \<and> (m_focus s \<noteq> newFocus
        \<and> (m_playerInFocus s = [] \<or> map_of (m_adapters s) (m_playerInFocus s) \<noteq> None) \<longrightarrow>
      executeOnFocusChanged newFocus s =
        (s\<lparr>m_focus := newFocus, m_focusAcquireInProgress := False\<rparr>,
         [ACSDK_WARN ''unexpectedExecuteOnFocusChanged'' []]))
   \<and> (m_currentActivity (fst (executeOnFocusChanged newFocus s)) \<noteq> m_currentActivity s
        \<or> m_haltInitiator (fst (executeOnFocusChanged newFocus s)) \<noteq> m_haltInitiator s
        \<or> handlerCalls (snd (executeOnFocusChanged newFocus s)) \<noteq> [] \<longrightarrow>
      m_focus s \<noteq> newFocus \<and> m_playerInFocus s \<noteq> []
      \<and> map_of (m_adapters s) (m_playerInFocus s) = None)"
  by (auto simp: executeOnFocusChanged_def unexpectedExecuteOnFocusChanged_def Let_def)

theorem focus_change_guard_witness:
  "executeOnFocusChanged FOREGROUND
     (initial\<lparr>m_focus := FOREGROUND, m_focusAcquireInProgress := True,
              m_currentActivity := PAUSED, m_haltInitiator := FOCUS_CHANGE_PAUSE,
              m_playerInFocus := ''Spotify'', m_adapterHandlers := [7]\<rparr>) =
     (initial\<lparr>m_focus := FOREGROUND, m_focusAcquireInProgress := False,
              m_currentActivity := PAUSED, m_haltInitiator := FOCUS_CHANGE_PAUSE,
              m_playerInFocus := ''Spotify'', m_adapterHandlers := [7]\<rparr>, [])
   \<and> executeOnFocusChanged BACKGROUND
       (initial\<lparr>m_currentActivity := PLAYING, m_adapterHandlers := [7]\<rparr>) =
     (initial\<lparr>m_focus := BACKGROUND, m_currentActivity := PLAYING, m_adapterHandlers := [7]\<rparr>,
      [ACSDK_WARN ''unexpectedExecuteOnFocusChanged'' []])
   \<and> executeOnFocusChanged Focus_NONE
       (initial\<lparr>m_focus := FOREGROUND, m_currentActivity := PLAYING,
                m_adapters := [(''Spotify'', Some 1)], m_playerInFocus := ''Spotify'',
                m_adapterHandlers := [7]\<rparr>) =
     (initial\<lparr>m_focus := Focus_NONE, m_currentActivity := PLAYING,
              m_adapters := [(''Spotify'', Some 1)], m_playerInFocus := ''Spotify'',
              m_adapterHandlers := [7]\<rparr>,
      [ACSDK_WARN ''unexpectedExecuteOnFocusChanged'' []])
   \<and> handlerCalls (snd (executeOnFocusChanged Focus_NONE
       (initial\<lparr>m_focus := FOREGROUND, m_currentActivity := PLAYING,
                m_playerInFocus := ''Spotify'', m_adapterHandlers := [7]\<rparr>))) \<noteq> []
   \<and> map_of (m_adapters (initial\<lparr>m_focus := FOREGROUND, m_currentActivity := PLAYING,
                m_playerInFocus := ''Spotify'', m_adapterHandlers := [7]\<rparr>)) ''Spotify'' = None"
  using
    focus_change_guard [of "initial\<lparr>m_focus := FOREGROUND, m_focusAcquireInProgress := True,
              m_currentActivity := PAUSED, m_haltInitiator := FOCUS_CHANGE_PAUSE,
              m_playerInFocus := ''Spotify'', m_adapterHandlers := [7]\<rparr>" FOREGROUND]
    focus_change_guard [of "initial\<lparr>m_currentActivity := PLAYING, m_adapterHandlers := [7]\<rparr>"
      BACKGROUND]
    focus_change_guard [of "initial\<lparr>m_focus := FOREGROUND, m_currentActivity := PLAYING,
                m_adapters := [(''Spotify'', Some 1)], m_playerInFocus := ''Spotify'',
                m_adapterHandlers := [7]\<rparr>" Focus_NONE]
    focus_change_guard [of "initial\<lparr>m_focus := FOREGROUND, m_currentActivity := PLAYING,
                m_playerInFocus := ''Spotify'', m_adapterHandlers := [7]\<rparr>" Focus_NONE]
  by (simp add: initial_def executeOnFocusChanged_def stopExternalMediaPlayer_def
      setCurrentActivity_def forAdapterHandlers_def Let_def)

text \<open>
  C2, as amended. A BACKGROUND focus grant received while the current focus is not
  BACKGROUND, Playback Activity is PLAYING, and the player in focus is non-empty and has
  no entry in the Adapter Registry: the activity becomes PAUSED (and the waiters are
  notified), the halt initiator becomes FOCUS_CHANGE_PAUSE unless it is EXTERNAL_PAUSE,
  which is kept, and one PAUSE control for the player in focus is issued to each
  registered adapter handler, so exactly one when exactly one handler is registered.
\<close>

theorem background_while_playing:
  assumes "m_focus s \<noteq> BACKGROUND" and "m_currentActivity s = PLAYING"
    and "m_playerInFocus s \<noteq> []" and "map_of (m_adapters s) (m_playerInFocus s) = None"
  shows "executeOnFocusChanged BACKGROUND s =
    (s\<lparr>m_focus := BACKGROUND, m_focusAcquireInProgress := False,
       m_haltInitiator := (if m_haltInitiator s = EXTERNAL_PAUSE then EXTERNAL_PAUSE
                           else FOCUS_CHANGE_PAUSE),
       m_currentActivity := PAUSED\<rparr>,
     Notify_all # map (\<lambda>h. HandlerCall h (Handler_playControlForPlayer (m_playerInFocus s) PAUSE))
                    (m_adapterHandlers s))"
  using assms
  by (simp add: executeOnFocusChanged_def setCurrentActivity_def forAdapterHandlers_def Let_def)

theorem background_while_playing_witness:
  "executeOnFocusChanged BACKGROUND
     (initial\<lparr>m_focus := FOREGROUND, m_currentActivity := PLAYING,
              m_playerInFocus := ''Spotify'', m_adapterHandlers := [7]\<rparr>) =
   (initial\<lparr>m_focus := BACKGROUND, m_currentActivity := PAUSED,
            m_haltInitiator := FOCUS_CHANGE_PAUSE,
            m_playerInFocus := ''Spotify'', m_adapterHandlers := [7]\<rparr>,
    [Notify_all, HandlerCall 7 (Handler_playControlForPlayer ''Spotify'' PAUSE)])"
  using background_while_playing [of "initial\<lparr>m_focus := FOREGROUND, m_currentActivity := PLAYING,
              m_playerInFocus := ''Spotify'', m_adapterHandlers := [7]\<rparr>"]
  by (simp add: initial_def)

text \<open>
  C2 as stated fails: with the player in focus in the Adapter Registry the grant leaves the
  activity PLAYING and issues no control, and with two adapter handlers registered two
  PAUSE controls are issued.
\<close>

theorem background_while_playing_counterexample:
  "m_currentActivity (initial\<lparr>m_focus := FOREGROUND, m_currentActivity := PLAYING,
       m_adapters := [(''Spotify'', Some 1)], m_playerInFocus := ''Spotify'',
       m_adapterHandlers := [7]\<rparr>) = PLAYING
   \<and> executeOnFocusChanged BACKGROUND
       (initial\<lparr>m_focus := FOREGROUND, m_currentActivity := PLAYING,
                m_adapters := [(''Spotify'', Some 1)], m_playerInFocus := ''Spotify'',
                m_adapterHandlers := [7]\<rparr>) =
      (initial\<lparr>m_focus := BACKGROUND, m_currentActivity := PLAYING,
               m_adapters := [(''Spotify'', Some 1)], m_playerInFocus := ''Spotify'',
               m_adapterHandlers := [7]\<rparr>,
       [ACSDK_WARN ''unexpectedExecuteOnFocusChanged'' []])
   \<and> snd (executeOnFocusChanged BACKGROUND
       (initial\<lparr>m_focus := FOREGROUND, m_currentActivity := PLAYING,
                m_playerInFocus := ''Spotify'', m_adapterHandlers := [7, 8]\<rparr>)) =
      [Notify_all, HandlerCall 7 (Handler_playControlForPlayer ''Spotify'' PAUSE),
       HandlerCall 8 (Handler_playControlForPlayer ''Spotify'' PAUSE)]"
  by (simp add: initial_def executeOnFocusChanged_def setCurrentActivity_def
      forAdapterHandlers_def unexpectedExecuteOnFocusChanged_def Let_def)

text \<open>
  C3, as amended. A FOREGROUND focus grant received while Playback Activity is PAUSED. If
  the halt initiator is EXTERNAL_PAUSE, the activity stays PAUSED, the halt initiator stays
  EXTERNAL_PAUSE, no waiter is notified and no control is issued. If the halt initiator is
  FOCUS_CHANGE_PAUSE, the current focus is not FOREGROUND, and the player in focus is
  non-empty and has no entry in the Adapter Registry, the activity becomes PLAYING and one
  RESUME control for the player in focus is issued to each registered adapter handler, so
  exactly one when exactly one handler is registered.
\<close>

theorem foreground_while_paused:
  assumes "m_currentActivity s = PAUSED"
  shows "(m_haltInitiator s = EXTERNAL_PAUSE \<longrightarrow>
            m_currentActivity (fst (executeOnFocusChanged FOREGROUND s)) = PAUSED
            \<and> m_haltInitiator (fst (executeOnFocusChanged FOREGROUND s)) = EXTERNAL_PAUSE
            \<and> handlerCalls (snd (executeOnFocusChanged FOREGROUND s)) = []
            \<and> Notify_all \<notin> set (snd (executeOnFocusChanged FOREGROUND s)))
       \<and> (m_haltInitiator s = FOCUS_CHANGE_PAUSE \<and> m_focus s \<noteq> FOREGROUND
            \<and> m_playerInFocus s \<noteq> [] \<and> map_of (m_adapters s) (m_playerInFocus s) = None \<longrightarrow>
            executeOnFocusChanged FOREGROUND s =
              (s\<lparr>m_focus := FOREGROUND, m_focusAcquireInProgress := False,
                 m_currentActivity := PLAYING\<rparr>,
               Notify_all # map (\<lambda>h. HandlerCall h
                                   (Handler_playControlForPlayer (m_playerInFocus s) RESUME))
                              (m_adapterHandlers s)))"
  using assms
  by (auto simp: executeOnFocusChanged_def setCurrentActivity_def forAdapterHandlers_def
      unexpectedExecuteOnFocusChanged_def Let_def)

theorem foreground_while_paused_witness:
  "executeOnFocusChanged FOREGROUND
     (initial\<lparr>m_focus := BACKGROUND, m_currentActivity := PAUSED,
              m_haltInitiator := EXTERNAL_PAUSE,
              m_playerInFocus := ''Spotify'', m_adapterHandlers := [7]\<rparr>) =
     (initial\<lparr>m_focus := FOREGROUND, m_currentActivity := PAUSED,
              m_haltInitiator := EXTERNAL_PAUSE,
              m_playerInFocus := ''Spotify'', m_adapterHandlers := [7]\<rparr>, [])
   \<and> executeOnFocusChanged FOREGROUND
       (initial\<lparr>m_focus := BACKGROUND, m_currentActivity := PAUSED,
                m_haltInitiator := FOCUS_CHANGE_PAUSE,
                m_playerInFocus := ''Spotify'', m_adapterHandlers := [7]\<rparr>) =
     (initial\<lparr>m_focus := FOREGROUND, m_currentActivity := PLAYING,
              m_haltInitiator := FOCUS_CHANGE_PAUSE,
              m_playerInFocus := ''Spotify'', m_adapterHandlers := [7]\<rparr>,
      [Notify_all, HandlerCall 7 (Handler_playControlForPlayer ''Spotify'' RESUME)])"
  using
    foreground_while_paused [of "initial\<lparr>m_focus := BACKGROUND, m_currentActivity := PAUSED,
              m_haltInitiator := EXTERNAL_PAUSE,
              m_playerInFocus := ''Spotify'', m_adapterHandlers := [7]\<rparr>"]
    foreground_while_paused [of "initial\<lparr>m_focus := BACKGROUND, m_currentActivity := PAUSED,
                m_haltInitiator := FOCUS_CHANGE_PAUSE,
                m_playerInFocus := ''Spotify'', m_adapterHandlers := [7]\<rparr>"]
  by (simp add: initial_def executeOnFocusChanged_def Let_def)

text \<open>
  C3 as stated fails: with halt initiator FOCUS_CHANGE_PAUSE and the player in focus in the
  Adapter Registry the grant leaves the activity PAUSED and issues no control, and with
  two adapter handlers registered two RESUME controls are issued.
\<close>

theorem foreground_while_paused_counterexample:
  "executeOnFocusChanged FOREGROUND
       (initial\<lparr>m_focus := BACKGROUND, m_currentActivity := PAUSED,
                m_haltInitiator := FOCUS_CHANGE_PAUSE,
                m_adapters := [(''Spotify'', Some 1)], m_playerInFocus := ''Spotify'',
                m_adapterHandlers := [7]\<rparr>) =
      (initial\<lparr>m_focus := FOREGROUND, m_currentActivity := PAUSED,
               m_haltInitiator := FOCUS_CHANGE_PAUSE,
               m_adapters := [(''Spotify'', Some 1)], m_playerInFocus := ''Spotify'',
               m_adapterHandlers := [7]\<rparr>,
       [ACSDK_WARN ''unexpectedExecuteOnFocusChanged'' []])
   \<and> snd (executeOnFocusChanged FOREGROUND
       (initial\<lparr>m_focus := BACKGROUND, m_currentActivity := PAUSED,
                m_haltInitiator := FOCUS_CHANGE_PAUSE,
                m_playerInFocus := ''Spotify'', m_adapterHandlers := [7, 8]\<rparr>)) =
      [Notify_all, HandlerCall 7 (Handler_playControlForPlayer ''Spotify'' RESUME),
       HandlerCall 8 (Handler_playControlForPlayer ''Spotify'' RESUME)]"
  by (simp add: initial_def executeOnFocusChanged_def setCurrentActivity_def
      forAdapterHandlers_def unexpectedExecuteOnFocusChanged_def Let_def)

text \<open>
  Once an acquisition is outstanding or focus is held, a call of \<^verbatim>\<open>setPlayerInFocus\<close>
  acquires nothing and leaves that so.
\<close>

lemma setPlayerInFocus_held:
  assumes "m_focusAcquireInProgress s \<or> m_focus s \<noteq> Focus_NONE"
  shows "count_list (snd (setPlayerInFocus p acq s)) AcquireChannel = 0
         \<and> (m_focusAcquireInProgress (fst (setPlayerInFocus p acq s))
              \<or> m_focus (fst (setPlayerInFocus p acq s)) \<noteq> Focus_NONE)"
  using assms by (auto simp: setPlayerInFocus_def Let_def)

lemma setPlayerInFocus_once:
  "count_list (snd (setPlayerInFocus p acq s)) AcquireChannel \<le> 1
   \<and> (count_list (snd (setPlayerInFocus p acq s)) AcquireChannel = 1 \<longrightarrow>
        m_focusAcquireInProgress (fst (setPlayerInFocus p acq s)))"
  by (auto simp: setPlayerInFocus_def Let_def)

lemma setPlayerInFocus_calls_held:
  "m_focusAcquireInProgress s \<or> m_focus s \<noteq> Focus_NONE \<Longrightarrow>
   count_list (snd (setPlayerInFocus_calls calls s)) AcquireChannel = 0"
proof (induction calls arbitrary: s)
  case Nil
  show ?case by simp
next
  case (Cons c calls)
  obtain p acq where c: "c = (p, acq)" by (cases c)
  from setPlayerInFocus_held [OF Cons.prems, of p acq]
  have h0: "count_list (snd (setPlayerInFocus p acq s)) AcquireChannel = 0"
    and h1: "m_focusAcquireInProgress (fst (setPlayerInFocus p acq s))
              \<or> m_focus (fst (setPlayerInFocus p acq s)) \<noteq> Focus_NONE"
    by simp_all
  from Cons.IH [OF h1] h0 show ?case
    by (simp add: c split_beta Let_def)
qed

lemma setPlayerInFocus_calls_once:
  "count_list (snd (setPlayerInFocus_calls calls s)) AcquireChannel \<le> 1"
proof (induction calls arbitrary: s)
  case Nil
  show ?case by simp
next
  case (Cons c calls)
  obtain p acq where c: "c = (p, acq)" by (cases c)
  let ?r = "setPlayerInFocus p acq s"
  show ?case
  proof (cases "count_list (snd ?r) AcquireChannel = 1")
    case True
    with setPlayerInFocus_once [of p acq s] have "m_focusAcquireInProgress (fst ?r)" by simp
    then have "count_list (snd (setPlayerInFocus_calls calls (fst ?r))) AcquireChannel = 0"
      by (simp add: setPlayerInFocus_calls_held)
    with True show ?thesis by (simp add: c split_beta Let_def)
  next
    case False
    with setPlayerInFocus_once [of p acq s]
    have "count_list (snd ?r) AcquireChannel = 0" by linarith
    with Cons.IH [of "fst ?r"] show ?thesis by (simp add: c split_beta Let_def)
  qed
qed

text \<open>
  C7. A call of \<^verbatim>\<open>setPlayerInFocus\<close> requests the channel exactly when it has acquire
  intent, focus is NONE and no acquisition is in progress; that guarded acquire sets the
  player in focus, resets the activity to IDLE and the halt initiator to NONE and marks
  the acquisition in progress; an acquire call while an acquisition is outstanding or focus
  is held only sets the player in focus. Over any run of calls with no focus change
  between them the channel is requested at most once, and not at all when the run starts
  with an acquisition outstanding or focus held. The channel is released exactly when the
  call has no acquire intent, its identifier equals the player in focus and focus is not
  NONE.
\<close>

theorem setPlayerInFocus_acquire_release:
  "(AcquireChannel \<in> set (snd (setPlayerInFocus p acq s)) \<longleftrightarrow>
      acq \<and> m_focus s = Focus_NONE \<and> \<not> m_focusAcquireInProgress s)
   \<and> (acq \<and> m_focus s = Focus_NONE \<and> \<not> m_focusAcquireInProgress s \<longrightarrow>
        setPlayerInFocus p acq s =
          (s\<lparr>m_playerInFocus := p, m_currentActivity := IDLE, m_haltInitiator := Halt_NONE,
             m_focusAcquireInProgress := True\<rparr>,
           [SetHandler, AcquireChannel]))
   \<and> (acq \<and> (m_focusAcquireInProgress s \<or> m_focus s \<noteq> Focus_NONE) \<longrightarrow>
        setPlayerInFocus p acq s = (s\<lparr>m_playerInFocus := p\<rparr>, [SetHandler]))
   \<and> count_list (snd (setPlayerInFocus_calls calls s)) AcquireChannel \<le> 1
   \<and> (m_focusAcquireInProgress s \<or> m_focus s \<noteq> Focus_NONE \<longrightarrow>
        count_list (snd (setPlayerInFocus_calls calls s)) AcquireChannel = 0)
   \<and> (ReleaseChannel \<in> set (snd (setPlayerInFocus p acq s)) \<longleftrightarrow>
        \<not> acq \<and> p = m_playerInFocus s \<and> m_focus s \<noteq> Focus_NONE)"
proof -
  have a: "AcquireChannel \<in> set (snd (setPlayerInFocus p acq s)) \<longleftrightarrow>
      acq \<and> m_focus s = Focus_NONE \<and> \<not> m_focusAcquireInProgress s"
    by (auto simp: setPlayerInFocus_def Let_def)
  have b: "acq \<and> m_focus s = Focus_NONE \<and> \<not> m_focusAcquireInProgress s \<longrightarrow>
        setPlayerInFocus p acq s =
          (s\<lparr>m_playerInFocus := p, m_currentActivity := IDLE, m_haltInitiator := Halt_NONE,
             m_focusAcquireInProgress := True\<rparr>,
           [SetHandler, AcquireChannel])"
    by (simp add: setPlayerInFocus_def Let_def)
  have c: "acq \<and> (m_focusAcquireInProgress s \<or> m_focus s \<noteq> Focus_NONE) \<longrightarrow>
        setPlayerInFocus p acq s = (s\<lparr>m_playerInFocus := p\<rparr>, [SetHandler])"
    by (auto simp: setPlayerInFocus_def Let_def)
  have d: "ReleaseChannel \<in> set (snd (setPlayerInFocus p acq s)) \<longleftrightarrow>
        \<not> acq \<and> p = m_playerInFocus s \<and> m_focus s \<noteq> Focus_NONE"
    by (auto simp: setPlayerInFocus_def Let_def)
  from a b c d setPlayerInFocus_calls_once [of calls s] setPlayerInFocus_calls_held [of s calls]
  show ?thesis by blast
qed

theorem setPlayerInFocus_acquire_release_witness:
  "snd (setPlayerInFocus_calls [(''Spotify'', True), (''Spotify'', True)] initial) =
     [SetHandler, AcquireChannel, SetHandler]
   \<and> setPlayerInFocus ''Spotify'' True initial =
       (initial\<lparr>m_playerInFocus := ''Spotify'', m_focusAcquireInProgress := True\<rparr>,
        [SetHandler, AcquireChannel])
   \<and> setPlayerInFocus ''Pandora'' True (initial\<lparr>m_focusAcquireInProgress := True\<rparr>) =
       (initial\<lparr>m_playerInFocus := ''Pandora'', m_focusAcquireInProgress := True\<rparr>, [SetHandler])
   \<and> count_list (snd (setPlayerInFocus_calls [(''Spotify'', True), (''Spotify'', True)]
         (initial\<lparr>m_focus := FOREGROUND\<rparr>))) AcquireChannel = 0
   \<and> ReleaseChannel \<in> set (snd (setPlayerInFocus ''Spotify'' False
         (initial\<lparr>m_focus := FOREGROUND, m_playerInFocus := ''Spotify''\<rparr>)))"
  using
    setPlayerInFocus_acquire_release
      [of "''Spotify''" True initial "[(''Spotify'', True), (''Spotify'', True)]"]
    setPlayerInFocus_acquire_release
      [of "''Pandora''" True "initial\<lparr>m_focusAcquireInProgress := True\<rparr>" "[]"]
    setPlayerInFocus_acquire_release
      [of "''Spotify''" False "initial\<lparr>m_focus := FOREGROUND, m_playerInFocus := ''Spotify''\<rparr>"
          "[(''Spotify'', True), (''Spotify'', True)]"]
  by (simp add: initial_def setPlayerInFocus_def Let_def)

section \<open>Properties of the adapter handler set\<close>

lemma idle_executor: "m_executor s = [] \<Longrightarrow> s\<lparr>m_executor := []\<rparr> = s"
  by (cases s) simp

text \<open>
  C8. With no task pending: adding a handler that is already registered changes nothing
  and logs the duplicate as an error; adding the same handler twice to a set that does
  not hold it adds it once, the second add being rejected with that error, so that two
  adds to the empty set leave a set of size 1; removing a handler that is not registered
  changes nothing and logs a warning.
\<close>

theorem adapterHandler_duplicate_and_absent:
  assumes "m_executor s = []"
  shows "(h \<in> set (m_adapterHandlers s) \<longrightarrow>
            runExecutor env (fst (addAdapterHandler (Some h) s)) =
              (s, [ACSDK_ERROR ''addAdapterHandlerInExecutor'' ''Duplicate adapter handler.'']))
       \<and> (h \<notin> set (m_adapterHandlers s) \<longrightarrow>
            runExecutor env (fst (addAdapterHandler (Some h) (fst (addAdapterHandler (Some h) s)))) =
              (s\<lparr>m_adapterHandlers := m_adapterHandlers s @ [h]\<rparr>,
               [ACSDK_ERROR ''addAdapterHandlerInExecutor'' ''Duplicate adapter handler.'']))
       \<and> (m_adapterHandlers s = [] \<longrightarrow>
            length (m_adapterHandlers (fst (runExecutor env
              (fst (addAdapterHandler (Some h) (fst (addAdapterHandler (Some h) s))))))) = 1)
       \<and> (h \<notin> set (m_adapterHandlers s) \<longrightarrow>
            runExecutor env (fst (removeAdapterHandler (Some h) s)) =
              (s, [ACSDK_WARN ''removeAdapterHandlerInExecutor'' ''Nonexistent adapter handler.'']))"
  using assms idle_executor [OF assms]
  by (simp add: runExecutor_def addAdapterHandler_def removeAdapterHandler_def submit_def
      executeTask_def addAdapterHandlerInExecutor_def removeAdapterHandlerInExecutor_def)

theorem adapterHandler_duplicate_and_absent_witness:
  "runExecutor (example_env True [] [])
     (fst (addAdapterHandler (Some 7) (initial\<lparr>m_adapterHandlers := [7]\<rparr>))) =
     (initial\<lparr>m_adapterHandlers := [7]\<rparr>,
      [ACSDK_ERROR ''addAdapterHandlerInExecutor'' ''Duplicate adapter handler.''])
   \<and> runExecutor (example_env True [] [])
       (fst (addAdapterHandler (Some 7) (fst (addAdapterHandler (Some 7) initial)))) =
     (initial\<lparr>m_adapterHandlers := [7]\<rparr>,
      [ACSDK_ERROR ''addAdapterHandlerInExecutor'' ''Duplicate adapter handler.''])
   \<and> length (m_adapterHandlers (fst (runExecutor (example_env True [] [])
       (fst (addAdapterHandler (Some 7) (fst (addAdapterHandler (Some 7) initial))))))) = 1
   \<and> runExecutor (example_env True [] [])
       (fst (removeAdapterHandler (Some 8) (initial\<lparr>m_adapterHandlers := [7]\<rparr>))) =
     (initial\<lparr>m_adapterHandlers := [7]\<rparr>,
      [ACSDK_WARN ''removeAdapterHandlerInExecutor'' ''Nonexistent adapter handler.''])"
  using
    adapterHandler_duplicate_and_absent
      [of "initial\<lparr>m_adapterHandlers := [7]\<rparr>" 7 "example_env True [] []"]
    adapterHandler_duplicate_and_absent [of initial 7 "example_env True [] []"]
    adapterHandler_duplicate_and_absent
      [of "initial\<lparr>m_adapterHandlers := [7]\<rparr>" 8 "example_env True [] []"]
  by (simp add: initial_def)

section \<open>Properties of the directive dispatch\<close>

text \<open>
  A payload that parses, names a player, and whose player has a (non-null) adapter in the
  Adapter Registry resolves to that adapter, with no effect.
\<close>

lemma preprocessDirective_adapter:
  assumes "Parse env (getPayload (directive info)) = Some payload"
    and "retrieveValue_string payload PLAYER_ID = Some playerId"
    and "map_of (m_adapters s) playerId = Some (Some adapter)"
  shows "preprocessDirective env info s = (Some (adapter, payload), [])"
proof -
  from assms(3) have "m_adapters s \<noteq> []" by auto
  with assms show ?thesis
    by (simp add: preprocessDirective_def parseDirectivePayload_def)
qed

text \<open>The entries of the dispatch table for AdjustSeekPosition and Play, in both builds.\<close>

lemma dispatch_AdjustSeekPosition:
  "map_of (m_directiveToHandlerMap env) (''Alexa.SeekController'', ''AdjustSeekPosition'') =
     Some (ADJUST_SEEK, ptr_handleAdjustSeek)"
  by (simp add: m_directiveToHandlerMap_def EXTERNALMEDIAPLAYER_NAMESPACE_def
      PLAYBACKCONTROLLER_NAMESPACE_def PLAYLISTCONTROLLER_NAMESPACE_def
      SEEKCONTROLLER_NAMESPACE_def FAVORITESCONTROLLER_NAMESPACE_def)

lemma dispatch_Play:
  "map_of (m_directiveToHandlerMap env) (''ExternalMediaPlayer'', ''Play'') =
     Some (PLAY, ptr_handlePlay)"
  by (simp add: m_directiveToHandlerMap_def EXTERNALMEDIAPLAYER_NAMESPACE_def)

lemma handleAdjustSeek_adapter:
  assumes "Parse env (getPayload (directive info)) = Some payload"
    and "retrieveValue_string payload PLAYER_ID = Some playerId"
    and "map_of (m_adapters s) playerId = Some (Some adapter)"
    and "retrieveValue_int64 payload ''deltaPositionMilliseconds'' = Some deltaPosition"
  shows "handleAdjustSeek env info request s =
    (if deltaPosition < - 86400000 \<or> 86400000 < deltaPosition
     then (s, handleDirectiveFailed info ''deltaPositionMillisecondsOutOfRange.''
                ''missing deltaPositionMilliseconds in AdjustSeekPosition directive'')
     else (s, setHandlingCompleted info
              @ [AdapterCall adapter (Adapter_handleAdjustSeek deltaPosition)]))"
  using assms(4)
  by (simp add: handleAdjustSeek_def preprocessDirective_adapter [OF assms(1-3)]
      MAX_PAST_OFFSET_def MAX_FUTURE_OFFSET_def)

text \<open>
  The range check of AdjustSeekPosition (namespace Alexa.SeekController), for a directive
  that resolves to a registry adapter and carries a delta, in both builds. A delta below
  -86,400,000 or above 86,400,000 milliseconds takes the out-of-range branch: the
  directive is failed, nothing changes and no adapter is called. A delta within the bounds
  completes the directive and calls the adapter's \<^verbatim>\<open>handleAdjustSeek\<close> with that delta. The
  failure of the out-of-range branch carries the logged reason
  \<open>deltaPositionMillisecondsOutOfRange.\<close> and the message of the missing-field branch.
\<close>

lemma adjustSeek_range:
  assumes "getNamespace (directive info) = ''Alexa.SeekController''"
    and "getName (directive info) = ''AdjustSeekPosition''"
    and "Parse env (getPayload (directive info)) = Some payload"
    and "retrieveValue_string payload PLAYER_ID = Some playerId"
    and "map_of (m_adapters s) playerId = Some (Some adapter)"
    and "retrieveValue_int64 payload ''deltaPositionMilliseconds'' = Some deltaPosition"
  shows "(deltaPosition < - 86400000 \<or> 86400000 < deltaPosition \<longrightarrow>
            handleDirective env (Some info) s =
              (s, [ACSDK_ERROR ''handleDirectiveFailed'' ''deltaPositionMillisecondsOutOfRange.'',
                   SendExceptionEncountered (getUnparsedDirective (directive info)) None
                     ''missing deltaPositionMilliseconds in AdjustSeekPosition directive'']
                  @ (if result info
                     then [SetFailed (getMessageId (directive info))
                             ''missing deltaPositionMilliseconds in AdjustSeekPosition directive'',
                           RemoveDirective (getMessageId (directive info))]
                     else []))
            \<and> adapterCalls (snd (handleDirective env (Some info) s)) = []
            \<and> handlerCalls (snd (handleDirective env (Some info) s)) = [])
       \<and> (- 86400000 \<le> deltaPosition \<and> deltaPosition \<le> 86400000 \<longrightarrow>
            handleDirective env (Some info) s =
              (s, (if result info
                   then [SetCompleted (getMessageId (directive info)),
                         RemoveDirective (getMessageId (directive info))]
                   else [])
                  @ [AdapterCall adapter (Adapter_handleAdjustSeek deltaPosition)]))"
proof -
  have "handleDirective env (Some info) s = handleAdjustSeek env info ADJUST_SEEK s"
    by (simp add: handleDirective_def assms(1,2) dispatch_AdjustSeekPosition invoke_def)
  then show ?thesis
    by (auto simp: handleAdjustSeek_adapter [OF assms(3-6)] handleDirectiveFailed_def
        sendExceptionEncounteredAndReportFailed_def removeDirective_def setHandlingCompleted_def)
qed

text \<open>
  The same directive with no delta to retrieve takes the missing-field branch, in both
  builds.
\<close>

lemma adjustSeek_missing_delta:
  assumes "getNamespace (directive info) = ''Alexa.SeekController''"
    and "getName (directive info) = ''AdjustSeekPosition''"
    and "Parse env (getPayload (directive info)) = Some payload"
    and "retrieveValue_string payload PLAYER_ID = Some playerId"
    and "map_of (m_adapters s) playerId = Some (Some adapter)"
    and "retrieveValue_int64 payload ''deltaPositionMilliseconds'' = None"
  shows "handleDirective env (Some info) s =
           (s, [ACSDK_ERROR ''handleDirectiveFailed'' ''nullDeltaPositionMilliseconds'',
                SendExceptionEncountered (getUnparsedDirective (directive info)) None
                  ''missing deltaPositionMilliseconds in AdjustSeekPosition directive'']
               @ (if result info
                  then [SetFailed (getMessageId (directive info))
                          ''missing deltaPositionMilliseconds in AdjustSeekPosition directive'',
                        RemoveDirective (getMessageId (directive info))]
                  else []))"
proof -
  have "handleDirective env (Some info) s = handleAdjustSeek env info ADJUST_SEEK s"
    by (simp add: handleDirective_def assms(1,2) dispatch_AdjustSeekPosition invoke_def)
  then show ?thesis
    using assms(6)
    by (simp add: handleAdjustSeek_def preprocessDirective_adapter [OF assms(3-5)]
        handleDirectiveFailed_def sendExceptionEncounteredAndReportFailed_def
        removeDirective_def)
qed

text \<open>The range check at the bounds: 86,400,000 is accepted, -86,400,001 is not.\<close>

lemma adjustSeek_range_at_bounds:
  "adapterCalls (snd (handleDirective (example_env True example_parses [])
       (Some (example_info ''Alexa.SeekController'' ''AdjustSeekPosition'' ''delta=-86400001''))
       (initial\<lparr>m_adapters := [(''Spotify'', Some 1)]\<rparr>))) = []
   \<and> handleDirective (example_env True example_parses [])
       (Some (example_info ''Alexa.SeekController'' ''AdjustSeekPosition'' ''delta=86400000''))
       (initial\<lparr>m_adapters := [(''Spotify'', Some 1)]\<rparr>) =
     (initial\<lparr>m_adapters := [(''Spotify'', Some 1)]\<rparr>,
      [SetCompleted ''msg-1'', RemoveDirective ''msg-1'',
       AdapterCall 1 (Adapter_handleAdjustSeek 86400000)])"
  using
    adjustSeek_range [of
      "example_info ''Alexa.SeekController'' ''AdjustSeekPosition'' ''delta=-86400001''"
      "example_env True example_parses []"
      "seek_payload (- 86400001)" "''Spotify''" "initial\<lparr>m_adapters := [(''Spotify'', Some 1)]\<rparr>"
      1 "- 86400001"]
    adjustSeek_range [of
      "example_info ''Alexa.SeekController'' ''AdjustSeekPosition'' ''delta=86400000''"
      "example_env True example_parses []"
      "seek_payload 86400000" "''Spotify''" "initial\<lparr>m_adapters := [(''Spotify'', Some 1)]\<rparr>"
      1 86400000]
  by (simp add: example_env_def example_info_def example_parses_def seek_payload_def
      initial_def retrieveValue_string_def retrieveValue_int64_def PLAYER_ID_def)

text \<open>
  C4, at a failing input. Either build, the registry adapter 1 for the player Spotify, and
  an AdjustSeekPosition directive for Spotify with a delta of 86,400,001 milliseconds. The
  directive is failed and no adapter is called, as the range check intends, but the error
  that is sent and set on the directive is the message of a missing field, the very
  message the same directive gets when it carries no delta at all: only the logged reason
  tells the two apart. The directive is not failed with an out-of-range error.
\<close>

theorem adjustSeek_out_of_range_failing_input:
  "handleDirective (example_env False example_parses [])
     (Some (example_info ''Alexa.SeekController'' ''AdjustSeekPosition'' ''delta=86400001''))
     (initial\<lparr>m_adapters := [(''Spotify'', Some 1)]\<rparr>) =
     (initial\<lparr>m_adapters := [(''Spotify'', Some 1)]\<rparr>,
      [ACSDK_ERROR ''handleDirectiveFailed'' ''deltaPositionMillisecondsOutOfRange.'',
       SendExceptionEncountered ''unparsed-1'' None
         ''missing deltaPositionMilliseconds in AdjustSeekPosition directive'',
       SetFailed ''msg-1'' ''missing deltaPositionMilliseconds in AdjustSeekPosition directive'',
       RemoveDirective ''msg-1''])
   \<and> handleDirective (example_env True example_parses [])
     (Some (example_info ''Alexa.SeekController'' ''AdjustSeekPosition'' ''delta=86400001''))
     (initial\<lparr>m_adapters := [(''Spotify'', Some 1)]\<rparr>) =
     (initial\<lparr>m_adapters := [(''Spotify'', Some 1)]\<rparr>,
      [ACSDK_ERROR ''handleDirectiveFailed'' ''deltaPositionMillisecondsOutOfRange.'',
       SendExceptionEncountered ''unparsed-1'' None
         ''missing deltaPositionMilliseconds in AdjustSeekPosition directive'',
       SetFailed ''msg-1'' ''missing deltaPositionMilliseconds in AdjustSeekPosition directive'',
       RemoveDirective ''msg-1''])
   \<and> handleDirective (example_env False example_parses [])
     (Some (example_info ''Alexa.SeekController'' ''AdjustSeekPosition'' ''no delta''))
     (initial\<lparr>m_adapters := [(''Spotify'', Some 1)]\<rparr>) =
     (initial\<lparr>m_adapters := [(''Spotify'', Some 1)]\<rparr>,
      [ACSDK_ERROR ''handleDirectiveFailed'' ''nullDeltaPositionMilliseconds'',
       SendExceptionEncountered ''unparsed-1'' None
         ''missing deltaPositionMilliseconds in AdjustSeekPosition directive'',
       SetFailed ''msg-1'' ''missing deltaPositionMilliseconds in AdjustSeekPosition directive'',
       RemoveDirective ''msg-1''])"
  using
    adjustSeek_range [of
      "example_info ''Alexa.SeekController'' ''AdjustSeekPosition'' ''delta=86400001''"
      "example_env False example_parses []"
      "seek_payload 86400001" "''Spotify''" "initial\<lparr>m_adapters := [(''Spotify'', Some 1)]\<rparr>"
      1 86400001]
    adjustSeek_range [of
      "example_info ''Alexa.SeekController'' ''AdjustSeekPosition'' ''delta=86400001''"
      "example_env True example_parses []"
      "seek_payload 86400001" "''Spotify''" "initial\<lparr>m_adapters := [(''Spotify'', Some 1)]\<rparr>"
      1 86400001]
    adjustSeek_missing_delta [of
      "example_info ''Alexa.SeekController'' ''AdjustSeekPosition'' ''no delta''"
      "example_env False example_parses []"
      "[(''playerId'', JString ''Spotify'')]" "''Spotify''"
      "initial\<lparr>m_adapters := [(''Spotify'', Some 1)]\<rparr>" 1]
  by (simp add: example_env_def example_info_def example_parses_def seek_payload_def
      initial_def retrieveValue_string_def retrieveValue_int64_def PLAYER_ID_def)

text \<open>
  C5. A directive whose (namespace, name) pair has no entry in the dispatch table is
  failed with the message \<open>Unhandled directive\<close>: the exception is sent with the error type
  UNEXPECTED_INFORMATION_RECEIVED, the result sink (when the directive has one) is set to
  failed, and nothing else happens: the object is unchanged, so no handler function ran
  and no task was submitted, and no adapter and no adapter handler is called.
\<close>

theorem unhandled_directive:
  assumes "map_of (m_directiveToHandlerMap env)
             (getNamespace (directive info), getName (directive info)) = None"
  shows "handleDirective env (Some info) s =
           (s, [ACSDK_ERROR ''handleDirectivesFailed'' ''noDirectiveHandlerForDirective'',
                SendExceptionEncountered (getUnparsedDirective (directive info))
                  (Some UNEXPECTED_INFORMATION_RECEIVED) ''Unhandled directive'']
               @ (if result info
                  then [SetFailed (getMessageId (directive info)) ''Unhandled directive'',
                        RemoveDirective (getMessageId (directive info))]
                  else []))
         \<and> adapterCalls (snd (handleDirective env (Some info) s)) = []
         \<and> handlerCalls (snd (handleDirective env (Some info) s)) = []"
  using assms
  by (simp add: handleDirective_def sendExceptionEncounteredAndReportFailed_def
      removeDirective_def)

theorem unhandled_directive_witness:
  "handleDirective (example_env True example_parses [])
      (Some (example_info ''ExternalMediaPlayer'' ''Rewind'' ''{}''))
      (initial\<lparr>m_adapters := [(''Spotify'', Some 1)], m_adapterHandlers := [7]\<rparr>) =
     (initial\<lparr>m_adapters := [(''Spotify'', Some 1)], m_adapterHandlers := [7]\<rparr>,
      [ACSDK_ERROR ''handleDirectivesFailed'' ''noDirectiveHandlerForDirective'',
       SendExceptionEncountered ''unparsed-1'' (Some UNEXPECTED_INFORMATION_RECEIVED)
         ''Unhandled directive'',
       SetFailed ''msg-1'' ''Unhandled directive'',
       RemoveDirective ''msg-1''])"
proof -
  have h: "map_of (m_directiveToHandlerMap (example_env True example_parses []))
             (getNamespace (directive (example_info ''ExternalMediaPlayer'' ''Rewind'' ''{}'')),
              getName (directive (example_info ''ExternalMediaPlayer'' ''Rewind'' ''{}''))) = None"
    by (simp add: m_directiveToHandlerMap_def example_env_def example_info_def
        EXTERNALMEDIAPLAYER_NAMESPACE_def PLAYBACKCONTROLLER_NAMESPACE_def
        PLAYLISTCONTROLLER_NAMESPACE_def SEEKCONTROLLER_NAMESPACE_def
        FAVORITESCONTROLLER_NAMESPACE_def)
  from unhandled_directive [OF h,
      of "initial\<lparr>m_adapters := [(''Spotify'', Some 1)], m_adapterHandlers := [7]\<rparr>"]
  show ?thesis by (simp add: example_info_def)
qed

lemma handlePlay_no_playbackContextToken:
  assumes "Parse env (getPayload (directive info)) = Some payload"
    and "retrieveValue_string payload PLAYER_ID = Some playerId"
    and "map_of (m_adapters s) playerId = Some (Some adapter)"
    and "retrieveValue_string payload ''playbackContextToken'' = None"
  shows "handlePlay env info request s =
           (s, handleDirectiveFailed info ''nullPlaybackContextToken''
                 ''missing playbackContextToken in Play directive'')"
  using assms(4)
  by (simp add: handlePlay_def preprocessDirective_adapter [OF assms(1-3)])

text \<open>
  C6. A Play directive (namespace ExternalMediaPlayer) that resolves to a registry adapter
  and whose payload has no \<open>playbackContextToken\<close> to retrieve is failed with the message
  \<open>missing playbackContextToken in Play directive\<close>; the object is unchanged and no adapter
  is called, so the adapter's \<^verbatim>\<open>handlePlay\<close> is not.
\<close>

theorem play_missing_playbackContextToken:
  assumes "getNamespace (directive info) = ''ExternalMediaPlayer''"
    and "getName (directive info) = ''Play''"
    and "Parse env (getPayload (directive info)) = Some payload"
    and "retrieveValue_string payload PLAYER_ID = Some playerId"
    and "map_of (m_adapters s) playerId = Some (Some adapter)"
    and "retrieveValue_string payload ''playbackContextToken'' = None"
  shows "handleDirective env (Some info) s =
           (s, [ACSDK_ERROR ''handleDirectiveFailed'' ''nullPlaybackContextToken'',
                SendExceptionEncountered (getUnparsedDirective (directive info)) None
                  ''missing playbackContextToken in Play directive'']
               @ (if result info
                  then [SetFailed (getMessageId (directive info))
                          ''missing playbackContextToken in Play directive'',
                        RemoveDirective (getMessageId (directive info))]
                  else []))
         \<and> adapterCalls (snd (handleDirective env (Some info) s)) = []
         \<and> handlerCalls (snd (handleDirective env (Some info) s)) = []"
proof -
  have "handleDirective env (Some info) s = handlePlay env info PLAY s"
    by (simp add: handleDirective_def assms(1,2) dispatch_Play invoke_def)
  then show ?thesis
    by (simp add: handlePlay_no_playbackContextToken [OF assms(3-6)] handleDirectiveFailed_def
        sendExceptionEncounteredAndReportFailed_def removeDirective_def)
qed

theorem play_missing_playbackContextToken_witness:
  "handleDirective (example_env True example_parses [])
     (Some (example_info ''ExternalMediaPlayer'' ''Play'' ''play''))
     (initial\<lparr>m_adapters := [(''Spotify'', Some 1)]\<rparr>) =
     (initial\<lparr>m_adapters := [(''Spotify'', Some 1)]\<rparr>,
      [ACSDK_ERROR ''handleDirectiveFailed'' ''nullPlaybackContextToken'',
       SendExceptionEncountered ''unparsed-1'' None
         ''missing playbackContextToken in Play directive'',
       SetFailed ''msg-1'' ''missing playbackContextToken in Play directive'',
       RemoveDirective ''msg-1''])"
  using
    play_missing_playbackContextToken [of
      "example_info ''ExternalMediaPlayer'' ''Play'' ''play''"
      "example_env True example_parses []"
      "[(''playerId'', JString ''Spotify''), (''index'', JInt 0)]" "''Spotify''"
      "initial\<lparr>m_adapters := [(''Spotify'', Some 1)]\<rparr>" 1]
  by (simp add: example_env_def example_info_def example_parses_def
      initial_def retrieveValue_string_def PLAYER_ID_def)

text \<open>
  A payload that parses and has no \<open>playerId\<close> to retrieve: \<^verbatim>\<open>preprocessDirective\<close> fails
  the directive with the message \<open>No PlayerId in directive.\<close> before it looks at the
  Adapter Registry, and returns null.
\<close>

lemma preprocessDirective_no_playerId:
  assumes "Parse env (getPayload (directive info)) = Some payload"
    and "retrieveValue_string payload PLAYER_ID = None"
  shows "preprocessDirective env info s =
           (None, [ACSDK_ERROR ''preprocessDirectiveFailed'' ''nullPlayerId'',
                   SendExceptionEncountered (getUnparsedDirective (directive info)) None
                     ''No PlayerId in directive.'']
                  @ (if result info
                     then [SetFailed (getMessageId (directive info)) ''No PlayerId in directive.'',
                           RemoveDirective (getMessageId (directive info))]
                     else []))"
  using assms
  by (simp add: preprocessDirective_def parseDirectivePayload_def
      sendExceptionEncounteredAndReportFailed_def removeDirective_def)

lemma m_executor_setHaltInitiatorRequestHelper:
  "m_executor (setHaltInitiatorRequestHelper request s) = m_executor s"
  by (cases request) (simp_all add: setHaltInitiatorRequestHelper_def)

text \<open>
  What every handler that resolves an adapter does with such a payload, in both builds:
  its effects are exactly the failure above, so it calls no adapter and no adapter handler
  itself. Without EXTERNALMEDIAPLAYER_1_1 the object is unchanged. With it, the handler
  goes on into its \<^verbatim>\<open>if (!adapter)\<close> branch and submits one task, the broadcast of the
  directive to the adapter handlers.
\<close>

lemma missing_playerId_every_handler:
  assumes "Parse env (getPayload (directive info)) = Some payload"
    and "retrieveValue_string payload PLAYER_ID = None"
    and "handler \<noteq> ptr_handleAuthorizeDiscoveredPlayers"
  shows "snd (invoke handler env info request s) =
           [ACSDK_ERROR ''preprocessDirectiveFailed'' ''nullPlayerId'',
            SendExceptionEncountered (getUnparsedDirective (directive info)) None
              ''No PlayerId in directive.'']
           @ (if result info
              then [SetFailed (getMessageId (directive info)) ''No PlayerId in directive.'',
                    RemoveDirective (getMessageId (directive info))]
              else [])
         \<and> adapterCalls (snd (invoke handler env info request s)) = []
         \<and> handlerCalls (snd (invoke handler env info request s)) = []
         \<and> (\<not> EXTERNALMEDIAPLAYER_1_1 env \<longrightarrow> fst (invoke handler env info request s) = s)
         \<and> (EXTERNALMEDIAPLAYER_1_1 env \<longrightarrow>
              length (m_executor (fst (invoke handler env info request s)))
              = Suc (length (m_executor s)))"
  using assms(3)
  by (cases handler)
     (simp_all add: invoke_def handleLogin_def handleLogout_def handlePlay_def
       handlePlayControl_def handleSeek_def handleAdjustSeek_def noAdapter_def submit_def
       preprocessDirective_no_playerId [OF assms(1,2)]
       m_executor_setHaltInitiatorRequestHelper)

lemma example_info_directive:
  "getNamespace (directive (example_info ns name payload)) = ns"
  "getName (directive (example_info ns name payload)) = name"
  by (simp_all add: example_info_def)

text \<open>
  C1, at a failing input. The build with EXTERNALMEDIAPLAYER_1_1, an empty Adapter
  Registry, one adapter handler (7) registered, and a Login directive whose payload is the
  empty object. The directive is failed with \<open>No PlayerId in directive.\<close>, and the broadcast
  is submitted all the same: when the executor runs, the handler's \<^verbatim>\<open>login\<close> is called with
  the payload and the directive, already failed, is set completed.
\<close>

theorem missing_playerId_failing_input:
  "handleDirective (example_env True example_parses [])
     (Some (example_info ''ExternalMediaPlayer'' ''Login'' ''{}''))
     (initial\<lparr>m_adapterHandlers := [7]\<rparr>) =
     (initial\<lparr>m_adapterHandlers := [7],
              m_executor := [Task_login (example_info ''ExternalMediaPlayer'' ''Login'' ''{}'')]\<rparr>,
      [ACSDK_ERROR ''preprocessDirectiveFailed'' ''nullPlayerId'',
       SendExceptionEncountered ''unparsed-1'' None ''No PlayerId in directive.'',
       SetFailed ''msg-1'' ''No PlayerId in directive.'',
       RemoveDirective ''msg-1''])
   \<and> runExecutor (example_env True example_parses [])
       (fst (handleDirective (example_env True example_parses [])
          (Some (example_info ''ExternalMediaPlayer'' ''Login'' ''{}''))
          (initial\<lparr>m_adapterHandlers := [7]\<rparr>))) =
     (initial\<lparr>m_adapterHandlers := [7]\<rparr>,
      [HandlerCall 7 (Handler_login ''{}''), SetCompleted ''msg-1'', RemoveDirective ''msg-1''])"
proof -
  have table: "map_of (m_directiveToHandlerMap (example_env True example_parses []))
                 (''ExternalMediaPlayer'', ''Login'') = Some (LOGIN, ptr_handleLogin)"
    by (simp add: m_directiveToHandlerMap_def example_env_def EXTERNALMEDIAPLAYER_NAMESPACE_def)
  have pre: "preprocessDirective (example_env True example_parses [])
               (example_info ''ExternalMediaPlayer'' ''Login'' ''{}'')
               (initial\<lparr>m_adapterHandlers := [7]\<rparr>) =
             (None, [ACSDK_ERROR ''preprocessDirectiveFailed'' ''nullPlayerId'',
                     SendExceptionEncountered ''unparsed-1'' None ''No PlayerId in directive.'',
                     SetFailed ''msg-1'' ''No PlayerId in directive.'',
                     RemoveDirective ''msg-1''])"
    by (simp add: preprocessDirective_def parseDirectivePayload_def example_env_def
        example_parses_def example_info_def retrieveValue_string_def PLAYER_ID_def
        sendExceptionEncounteredAndReportFailed_def removeDirective_def)
  have flag: "EXTERNALMEDIAPLAYER_1_1 (example_env True example_parses [])"
    by (simp add: example_env_def)
  have first: "handleDirective (example_env True example_parses [])
     (Some (example_info ''ExternalMediaPlayer'' ''Login'' ''{}''))
     (initial\<lparr>m_adapterHandlers := [7]\<rparr>) =
     (initial\<lparr>m_adapterHandlers := [7],
              m_executor := [Task_login (example_info ''ExternalMediaPlayer'' ''Login'' ''{}'')]\<rparr>,
      [ACSDK_ERROR ''preprocessDirectiveFailed'' ''nullPlayerId'',
       SendExceptionEncountered ''unparsed-1'' None ''No PlayerId in directive.'',
       SetFailed ''msg-1'' ''No PlayerId in directive.'',
       RemoveDirective ''msg-1''])"
    using table
    by (simp add: handleDirective_def invoke_def handleLogin_def pre flag noAdapter_def
        submit_def example_info_directive) (simp add: initial_def)
  have second: "runExecutor (example_env True example_parses [])
       (initial\<lparr>m_adapterHandlers := [7],
                m_executor := [Task_login (example_info ''ExternalMediaPlayer'' ''Login'' ''{}'')]\<rparr>) =
     (initial\<lparr>m_adapterHandlers := [7]\<rparr>,
      [HandlerCall 7 (Handler_login ''{}''), SetCompleted ''msg-1'', RemoveDirective ''msg-1''])"
    by (simp add: runExecutor_def executeTask_def broadcast_def forAdapterHandlers_def
        setHandlingCompleted_def removeDirective_def example_info_def initial_def)
  from first second show ?thesis by simp
qed

section \<open>Properties of the state aggregation\<close>

text \<open>
  The two loops over the states reported by the adapter handlers: the session snapshot
  keeps the states whose session player id is non-empty, the playback snapshot keeps
  every state.
\<close>

lemma sessionStateOfHandlers_filter:
  "sessionStateOfHandlers adapterStates =
     map (\<lambda>st. buildSessionState (sessionState st))
       (filter (\<lambda>st. session_playerId (sessionState st) \<noteq> []) adapterStates)"
  by (induction adapterStates) simp_all

lemma playbackStateOfHandlers_all:
  "playbackStateOfHandlers adapterStates =
     map (\<lambda>st. buildPlaybackState (playbackState st)) adapterStates"
  by (induction adapterStates) simp_all

text \<open>
  C9, at a failing input. The build with EXTERNALMEDIAPLAYER_1_1, an empty Adapter
  Registry and one adapter handler (7) that reports a single, empty adapter state. The
  session snapshot has no block for it; the playback snapshot has one.
\<close>

theorem handler_states_failing_input:
  "executeProvideState (example_env True [] [(7, [empty_state])]) SESSION_STATE True 1
     (initial\<lparr>m_adapterHandlers := [7]\<rparr>) =
     [SetState SESSION_STATE (Some (SessionStateJson [] True [])) (Some 1)]
   \<and> executeProvideState (example_env True [] [(7, [empty_state])]) PLAYBACK_STATE True 1
       (initial\<lparr>m_adapterHandlers := [7]\<rparr>) =
     [SetState PLAYBACK_STATE
        (Some (PlaybackStateJson
           [buildPlaybackState \<lparr>playback_playerId = [], playback_state = [], trackName = []\<rparr>]))
        (Some 1)]"
  by (simp add: executeProvideState_def handlerAdapterStates_def provideSessionState_def
      providePlaybackState_def example_env_def initial_def empty_state_def
      SESSION_STATE_def PLAYBACK_STATE_def)

end
